theory Spec2Isabelle
  imports Main
begin

section \<open>JavaScript values\<close>

text \<open>
  The values the models handle: request fields, query parameters, the columns of a stored
  row and the properties of a formatted object. A number is an integral JavaScript number
  and is kept exact; fractions and infinities are outside the model. An object is the list
  of its own properties in insertion order, which is the order \<^verbatim>\<open>Object.entries\<close>
  walks. A timestamp column is the number of microseconds since the epoch. \<open>Fn\<close> is a
  function-valued property, named by the property it is stored under.
  Strings are lists of 8-bit characters: the code units below 256.
\<close>

datatype val = Undefined | Null | Bool bool | Num int | NaN | Str string
  | Fn string | Obj "(string \<times> val) list"

datatype error = Error string | TypeError string

type_synonym obj = "(string \<times> val) list"

text \<open>Property read \<^verbatim>\<open>o.k\<close>: a missing property reads as \<^verbatim>\<open>undefined\<close>.\<close>

definition get :: "obj \<Rightarrow> string \<Rightarrow> val" where
  "get ob k = (case map_of ob k of None \<Rightarrow> Undefined | Some v \<Rightarrow> v)"

text \<open>\<^verbatim>\<open>delete o.k\<close>.\<close>

definition delete_prop :: "string \<Rightarrow> obj \<Rightarrow> obj" where
  "delete_prop k ob = filter (\<lambda>p. fst p \<noteq> k) ob"

fun truthy :: "val \<Rightarrow> bool" where
  "truthy Undefined = False"
| "truthy Null = False"
| "truthy (Bool b) = b"
| "truthy (Num n) = (n \<noteq> 0)"
| "truthy NaN = False"
| "truthy (Str s) = (s \<noteq> [])"
| "truthy (Fn f) = True"
| "truthy (Obj ps) = True"

subsection \<open>Digits and decimal rendering\<close>

text \<open>Character classes by code unit: \<^verbatim>\<open>0\<close> to \<^verbatim>\<open>9\<close> are 48 to 57.\<close>

definition is_digit :: "char \<Rightarrow> bool" where
  "is_digit c = (48 \<le> (of_char c :: int) \<and> (of_char c :: int) \<le> 57)"

definition is_hex_digit :: "char \<Rightarrow> bool" where
  "is_hex_digit c = (is_digit c \<or> c \<in> set ''abcdefABCDEF'')"

text \<open>White space and line terminators below code unit 256, as \<^verbatim>\<open>parseInt\<close>,
  \<^verbatim>\<open>trim\<close> and the class \<^verbatim>\<open>\s\<close> read them.\<close>

definition is_space :: "char \<Rightarrow> bool" where
  "is_space c = (c \<in> set [CHR 0x09, CHR 0x0A, CHR 0x0B, CHR 0x0C, CHR 0x0D, CHR 0x20, CHR 0xA0])"

definition digit_val :: "char \<Rightarrow> int" where
  "digit_val c = of_char c - 48"

definition hex_val :: "char \<Rightarrow> int" where
  "hex_val c =
     (if is_digit c then of_char c - 48
      else if c \<in> set ''abcdef'' then of_char c - 87
      else of_char c - 55)"

definition digit_char :: "int \<Rightarrow> char" where
  "digit_char d = char_of (48 + d)"

function dec :: "int \<Rightarrow> string" where
  "dec n = (if n < 10 then [digit_char n] else dec (n div 10) @ [digit_char (n mod 10)])"
  by pat_completeness auto
termination
  by (relation "measure nat") auto

declare dec.simps [simp del]

definition dec_value :: "string \<Rightarrow> int" where
  "dec_value ds = foldl (\<lambda>a c. 10 * a + digit_val c) 0 ds"

definition hex_value :: "string \<Rightarrow> int" where
  "hex_value ds = foldl (\<lambda>a c. 16 * a + hex_val c) 0 ds"

text \<open>\<^verbatim>\<open>String(v)\<close>, template interpolation, and \<^verbatim>\<open>v.toString()\<close> on a value that
  has the method. A number beyond \<open>2^53\<close> is rounded by JavaScript and printed with an
  exponent from \<open>10^21\<close> on; the model prints every digit. An object is a plain data
  object.\<close>

fun to_string :: "val \<Rightarrow> string" where
  "to_string Undefined = ''undefined''"
| "to_string Null = ''null''"
| "to_string (Bool b) = (if b then ''true'' else ''false'')"
| "to_string (Num n) = (if n < 0 then CHR ''-'' # dec (- n) else dec n)"
| "to_string NaN = ''NaN''"
| "to_string (Str s) = s"
| "to_string (Fn f) = f"
| "to_string (Obj ps) = ''[object Object]''"

definition trim :: "string \<Rightarrow> string" where
  "trim s = rev (dropWhile is_space (rev (dropWhile is_space s)))"

text \<open>\<^verbatim>\<open>parseInt(s)\<close> with no radix: leading white space is skipped, one sign is read,
  a prefix \<^verbatim>\<open>0x\<close> selects base 16, then the longest run of digits is the value and
  whatever follows is ignored. No digit at all gives \<^verbatim>\<open>NaN\<close>. JavaScript rounds a
  value beyond \<open>2^53\<close>; the model keeps it exact, and either way its rendering is not a
  string of ten digits.\<close>

definition parseInt :: "string \<Rightarrow> val" where
  "parseInt s =
     (let s1 = dropWhile is_space s;
          neg = (take 1 s1 = ''-'');
          s2 = (if take 1 s1 = ''-'' \<or> take 1 s1 = ''+'' then drop 1 s1 else s1);
          hex = (take 2 s2 = ''0x'' \<or> take 2 s2 = ''0X'');
          s3 = (if hex then drop 2 s2 else s2);
          z = (if hex then takeWhile is_hex_digit s3 else takeWhile is_digit s3);
          m = (if hex then hex_value z else dec_value z)
      in if z = [] then NaN else Num (if neg then - m else m))"

text \<open>\<^verbatim>\<open>Number(v)\<close>. For a string only integer literals have a value in this model
  (white space trimmed, the empty string is 0); a string is converted this way only when
  it is the \<^verbatim>\<open>length\<close> property of an object given where a string is expected.\<close>

definition string_to_number :: "string \<Rightarrow> val" where
  "string_to_number s =
     (let t = trim s;
          u = (if take 1 t = ''-'' \<or> take 1 t = ''+'' then drop 1 t else t)
      in if t = [] then Num 0
         else if (take 2 t = ''0x'' \<or> take 2 t = ''0X'') \<and> drop 2 t \<noteq> [] \<and> list_all is_hex_digit (drop 2 t)
           then Num (hex_value (drop 2 t))
         else if u \<noteq> [] \<and> list_all is_digit u
           then Num (if take 1 t = ''-'' then - dec_value u else dec_value u)
         else NaN)"

fun to_number :: "val \<Rightarrow> val" where
  "to_number Undefined = NaN"
| "to_number Null = Num 0"
| "to_number (Bool b) = Num (if b then 1 else 0)"
| "to_number (Num n) = Num n"
| "to_number NaN = NaN"
| "to_number (Str s) = string_to_number s"
| "to_number (Fn f) = NaN"
| "to_number (Obj ps) = NaN"

definition js_isNaN :: "val \<Rightarrow> bool" where
  "js_isNaN v = (to_number v = NaN)"

text \<open>\<^verbatim>\<open>v <= 0\<close>: false when \<open>v\<close> converts to \<^verbatim>\<open>NaN\<close>.\<close>

definition le_zero :: "val \<Rightarrow> bool" where
  "le_zero v = (case to_number v of Num n \<Rightarrow> n \<le> 0 | _ \<Rightarrow> False)"

text \<open>\<^verbatim>\<open>s.slice(start, end)\<close>; a negative index counts from the end, \<open>None\<close> is an
  omitted \<open>end\<close>.\<close>

definition slice_index :: "nat \<Rightarrow> int \<Rightarrow> nat" where
  "slice_index len i = (if i < 0 then nat (max (int len + i) 0) else min (nat i) len)"

definition slice :: "string \<Rightarrow> int \<Rightarrow> int option \<Rightarrow> string" where
  "slice s start end =
     (let len = length s;
          from = slice_index len start;
          to = (case end of None \<Rightarrow> len | Some e \<Rightarrow> slice_index len e)
      in take (to - from) (drop from s))"

section \<open>Phone utilities (utils/phoneUtils.js)\<close>

text \<open>The test \<^verbatim>\<open>/^[6-9]\d{9}$/\<close>.\<close>

definition phone_regex :: "string \<Rightarrow> bool" where
  "phone_regex s =
     (case s of
        [] \<Rightarrow> False
      | c # r \<Rightarrow> 54 \<le> (of_char c :: int) \<and> (of_char c :: int) \<le> 57
                 \<and> length r = 9 \<and> list_all is_digit r)"

definition convertPhoneToNumber :: "val \<Rightarrow> error + val" where
  "convertPhoneToNumber phone =
     (if \<not> truthy phone then Inl (Error ''Phone number is required'')
      else
        let phoneNumber = (case phone of Str s \<Rightarrow> parseInt s | _ \<Rightarrow> phone) in
        if js_isNaN phoneNumber \<or> le_zero phoneNumber
        then Inl (Error ''Please provide a valid phone number (digits only)'')
        else
          let phoneStr = to_string phoneNumber in
          if \<not> phone_regex phoneStr
          then Inl (Error ''Invalid Indian phone number. It must be 10 digits and start with 6, 7, 8, or 9.'')
          else Inr phoneNumber)"

definition safeConvertPhoneToNumber :: "val \<Rightarrow> val" where
  "safeConvertPhoneToNumber phone =
     (case convertPhoneToNumber phone of Inl e \<Rightarrow> Null | Inr n \<Rightarrow> n)"

definition isValidPhoneNumber :: "val \<Rightarrow> bool" where
  "isValidPhoneNumber phone =
     (case convertPhoneToNumber phone of Inl e \<Rightarrow> False | Inr n \<Rightarrow> True)"

text \<open>The body of the formatter once \<^verbatim>\<open>phone.toString()\<close> has produced \<open>phoneStr\<close>.\<close>

definition formatPhoneStr :: "string \<Rightarrow> string" where
  "formatPhoneStr phoneStr =
     (if length phoneStr = 10
      then ''('' @ slice phoneStr 0 (Some 3) @ '') '' @ slice phoneStr 3 (Some 6) @ ''-''
           @ slice phoneStr 6 None
      else if length phoneStr = 11 \<and> take 1 phoneStr = ''1''
      then ''+1 ('' @ slice phoneStr 1 (Some 4) @ '') '' @ slice phoneStr 4 (Some 7) @ ''-''
           @ slice phoneStr 7 None
      else if length phoneStr \<ge> 10
      then ''+'' @ slice phoneStr 0 (Some (int (length phoneStr) - 10)) @ '' ''
           @ slice phoneStr (- 10) (Some (- 6)) @ '' '' @ slice phoneStr (- 6) None
      else phoneStr)"

definition formatPhoneForDisplay :: "val \<Rightarrow> error + string" where
  "formatPhoneForDisplay phone =
     (case phone of
        Undefined \<Rightarrow> Inl (TypeError ''Cannot read properties of undefined (reading toString)'')
      | Null \<Rightarrow> Inl (TypeError ''Cannot read properties of null (reading toString)'')
      | _ \<Rightarrow> Inr (formatPhoneStr (to_string phone)))"

definition parseFormattedPhone :: "val \<Rightarrow> error + val" where
  "parseFormattedPhone formattedPhone =
     (case formattedPhone of
        Str s \<Rightarrow> convertPhoneToNumber (Str (filter is_digit s))
      | _ \<Rightarrow> Inl (TypeError ''formattedPhone.replace is not a function''))"

section \<open>The store\<close>

text \<open>
  A table is the list of its rows and a row is the object the driver hands over: one
  property per column. Identifiers are opaque values. Time is read from the clock as an
  integer number of microseconds.

  The repository creates its tables in three scripts (the initialization script, the
  basic tables of \<^verbatim>\<open>db-utils.js\<close> and the migration). They agree on the columns, on
  which of them are \<^verbatim>\<open>NOT NULL\<close>, on the two enumerated types \<^verbatim>\<open>user_role_enum\<close> and
  \<^verbatim>\<open>job_type_enum\<close> and on the boolean columns; this much is written out below. They
  differ in lengths, \<^verbatim>\<open>CHECK\<close> constraints and foreign keys. What the store does with a
  value bound for any other column (its input syntax for the column's type, the length,
  \<^verbatim>\<open>CHECK\<close>, \<^verbatim>\<open>UNIQUE\<close> and foreign-key constraints) is the parameter \<open>reads\<close> of the
  update: \<open>reads c v\<close> is the value the store keeps and hands back when \<open>v\<close> is bound for
  column \<open>c\<close>, and \<open>None\<close> when it rejects \<open>v\<close>.
\<close>

type_synonym row = obj
type_synonym table = "row list"

text \<open>\<^verbatim>\<open>column = $n\<close>: unknown, hence not true, when either side is \<^verbatim>\<open>NULL\<close>
  (the driver sends \<^verbatim>\<open>undefined\<close> as \<^verbatim>\<open>NULL\<close>).\<close>

definition sql_eq :: "val \<Rightarrow> val \<Rightarrow> bool" where
  "sql_eq a b = (a \<noteq> Null \<and> a \<noteq> Undefined \<and> b \<noteq> Null \<and> b \<noteq> Undefined \<and> a = b)"

fun set_col :: "string \<Rightarrow> val \<Rightarrow> row \<Rightarrow> row" where
  "set_col c v [] = [(c, v)]"
| "set_col c v (p # ps) = (if fst p = c then (c, v) # ps else p # set_col c v ps)"

definition assign :: "(string \<times> val) list \<Rightarrow> row \<Rightarrow> row" where
  "assign sets r = foldl (\<lambda>r' cv. set_col (fst cv) (snd cv) r') r sets"

datatype coltype = Boolean | Enumerated "string list" | Other

text \<open>A column: its name, its type, and whether it is \<^verbatim>\<open>NOT NULL\<close>.\<close>

type_synonym column = "string \<times> coltype \<times> bool"

text \<open>The value kept for a column when \<open>v\<close> is bound to a parameter assigned to it.
  \<^verbatim>\<open>null\<close> and \<^verbatim>\<open>undefined\<close> are sent as \<^verbatim>\<open>NULL\<close>. A boolean column keeps a
  JavaScript boolean. A column of an enumerated type keeps a string that is one of the
  labels and rejects every other value. Everything else is the store's reading.\<close>

definition bind_value :: "(string \<Rightarrow> val \<Rightarrow> val option) \<Rightarrow> string \<Rightarrow> coltype \<Rightarrow> val \<Rightarrow> val option" where
  "bind_value reads c t v =
     (if v = Null \<or> v = Undefined then Some Null
      else (case t of
              Boolean \<Rightarrow> (case v of Bool b \<Rightarrow> Some (Bool b) | _ \<Rightarrow> reads c v)
            | Enumerated labels \<Rightarrow>
                (case v of
                   Str l \<Rightarrow> if l \<in> set labels then Some (Str l) else None
                 | _ \<Rightarrow> None)
            | Other \<Rightarrow> reads c v))"

definition stored :: "column list \<Rightarrow> (string \<Rightarrow> val \<Rightarrow> val option) \<Rightarrow> string \<Rightarrow> val \<Rightarrow> val option" where
  "stored cols reads c v =
     (case map_of cols c of
        None \<Rightarrow> None
      | Some (t, nn) \<Rightarrow> bind_value reads c t v)"

fun bind_all ::
  "column list \<Rightarrow> (string \<Rightarrow> val \<Rightarrow> val option) \<Rightarrow> (string \<times> val) list \<Rightarrow> (string \<times> val) list option"
where
  "bind_all cols reads [] = Some []"
| "bind_all cols reads ((c, v) # rest) =
     (case stored cols reads c v of
        None \<Rightarrow> None
      | Some w \<Rightarrow> (case bind_all cols reads rest of
                     None \<Rightarrow> None
                   | Some bound \<Rightarrow> Some ((c, w) # bound)))"

definition is_not_null :: "column list \<Rightarrow> string \<Rightarrow> bool" where
  "is_not_null cols c = (case map_of cols c of None \<Rightarrow> False | Some (t, nn) \<Rightarrow> nn)"

text \<open>\<^verbatim>\<open>UPDATE t SET params, fixed WHERE wh RETURNING *\<close>: the new table and the updated
  rows. \<open>params\<close> are the assignments of a bound parameter, \<open>fixed\<close> those of an
  expression of the statement text (\<^verbatim>\<open>updated_at = NOW()\<close>). The statement fails, and
  changes nothing, when it names a column the table does not have, assigns a column twice,
  binds a value the store rejects, or would write \<^verbatim>\<open>NULL\<close> into a \<^verbatim>\<open>NOT NULL\<close> column of
  a row. Constraints are checked on the assigned columns: the stored rows met them before.
  The source splices each column name into the statement text as it is. The model reads
  it as the name of a column, spelled as the schema spells it; a name with other
  characters would be folded or parsed by the store as statement text, which the model
  does not follow.\<close>

definition sql_update ::
  "column list \<Rightarrow> (string \<Rightarrow> val \<Rightarrow> val option) \<Rightarrow> table \<Rightarrow> (string \<times> val) list \<Rightarrow>
     (string \<times> val) list \<Rightarrow> (row \<Rightarrow> bool) \<Rightarrow> error + (table \<times> row list)"
where
  "sql_update cols reads tbl params fixed wh =
     (if \<not> list_all (\<lambda>c. c \<in> set (map fst cols)) (map fst (params @ fixed))
      then Inl (Error ''column does not exist'')
      else if \<not> distinct (map fst (params @ fixed))
      then Inl (Error ''multiple assignments to same column'')
      else (case bind_all cols reads params of
              None \<Rightarrow> Inl (Error ''value rejected by the store'')
            | Some bound \<Rightarrow>
                if list_ex wh tbl \<and> list_ex (\<lambda>cw. snd cw = Null \<and> is_not_null cols (fst cw)) bound
                then Inl (Error ''null value violates not-null constraint'')
                else Inr (map (\<lambda>r. if wh r then assign (bound @ fixed) r else r) tbl,
                          map (assign (bound @ fixed)) (filter wh tbl))))"

definition day :: int where
  "day = 86400000000"

definition created_at :: "row \<Rightarrow> int option" where
  "created_at r = (case get r ''created_at'' of Num t \<Rightarrow> Some t | _ \<Rightarrow> None)"

text \<open>\<^verbatim>\<open>ORDER BY created_at DESC\<close>: rows without a time first, then latest first. The
  order among equal times is the store's choice; the model fixes one.\<close>

definition order_by_created_at_desc :: "table \<Rightarrow> table" where
  "order_by_created_at_desc rows =
     filter (\<lambda>r. created_at r = None) rows
     @ rev (sort_key (\<lambda>r. case created_at r of Some t \<Rightarrow> t | None \<Rightarrow> 0)
              (filter (\<lambda>r. created_at r \<noteq> None) rows))"

definition users_columns :: "column list" where
  "users_columns =
     [(''id'', Other, True),
      (''name'', Other, True),
      (''email'', Other, True),
      (''phone'', Other, True),
      (''address'', Other, True),
      (''first_niche'', Other, False),
      (''second_niche'', Other, False),
      (''third_niche'', Other, False),
      (''password'', Other, True),
      (''resume_public_id'', Other, False),
      (''resume_url'', Other, False),
      (''cover_letter'', Other, False),
      (''role'', Enumerated [''Job Seeker'', ''Employer''], True),
      (''created_at'', Other, False),
      (''updated_at'', Other, False)]"

definition jobs_columns :: "column list" where
  "jobs_columns =
     [(''id'', Other, True),
      (''title'', Other, True),
      (''job_type'', Enumerated [''Full-time'', ''Part-time''], True),
      (''location'', Other, True),
      (''company_name'', Other, True),
      (''introduction'', Other, False),
      (''responsibilities'', Other, True),
      (''qualifications'', Other, True),
      (''offers'', Other, False),
      (''salary'', Other, True),
      (''hiring_multiple_candidates'', Other, False),
      (''personal_website_title'', Other, False),
      (''personal_website_url'', Other, False),
      (''job_niche'', Other, True),
      (''newsletters_sent'', Boolean, False),
      (''job_posted_on'', Other, False),
      (''posted_by'', Other, True),
      (''created_at'', Other, False),
      (''updated_at'', Other, False)]"

text \<open>The partial-update loop the models share: every entry whose value is not
  \<^verbatim>\<open>undefined\<close> becomes one assignment, under the column name the model's table gives.
  \<open>store_value\<close> is what the model puts in \<open>values\<close> for the entry and may fail.\<close>

fun update_fields ::
  "(string \<Rightarrow> string) \<Rightarrow> (string \<Rightarrow> val \<Rightarrow> error + val) \<Rightarrow> obj \<Rightarrow> error + (string \<times> val) list"
where
  "update_fields snake store_value [] = Inr []"
| "update_fields snake store_value ((key, v) # rest) =
     (if v \<noteq> Undefined
      then (case store_value key v of
              Inl e \<Rightarrow> Inl e
            | Inr w \<Rightarrow> (case update_fields snake store_value rest of
                         Inl e \<Rightarrow> Inl e
                       | Inr fields \<Rightarrow> Inr ((snake key, w) # fields)))
      else update_fields snake store_value rest)"

definition update_by_id ::
  "column list \<Rightarrow> (string \<Rightarrow> val \<Rightarrow> val option) \<Rightarrow> (string \<Rightarrow> string) \<Rightarrow>
     (string \<Rightarrow> val \<Rightarrow> error + val) \<Rightarrow> table \<Rightarrow> int \<Rightarrow> val \<Rightarrow> obj \<Rightarrow> table \<times> (error + row option)"
where
  "update_by_id cols reads snake store_value tbl now ident updateData =
     (case update_fields snake store_value updateData of
        Inl e \<Rightarrow> (tbl, Inl e)
      | Inr fields \<Rightarrow>
          if length fields = 0 then (tbl, Inl (Error ''No fields to update''))
          else (case sql_update cols reads tbl fields [(''updated_at'', Num now)]
                       (\<lambda>r. sql_eq (get r ''id'') ident) of
                  Inl e \<Rightarrow> (tbl, Inl e)
                | Inr (tbl', rows) \<Rightarrow>
                    (tbl', Inr (case rows of [] \<Rightarrow> None | r # rs \<Rightarrow> Some r))))"

section \<open>User model (models/userModelRaw.js)\<close>

text \<open>The formatters are applied to rows the store returned; a row is an object, so their
  guard \<^verbatim>\<open>if (!user) return null\<close> does not fire. The same holds for the job and the
  application formatter.\<close>

definition formatUser :: "row \<Rightarrow> obj" where
  "formatUser user =
     [(''id'', get user ''id''),
      (''name'', get user ''name''),
      (''email'', get user ''email''),
      (''phone'', get user ''phone''),
      (''address'', get user ''address''),
      (''firstNiche'', get user ''first_niche''),
      (''secondNiche'', get user ''second_niche''),
      (''thirdNiche'', get user ''third_niche''),
      (''password'', get user ''password''),
      (''resumePublicId'', get user ''resume_public_id''),
      (''resumeUrl'', get user ''resume_url''),
      (''coverLetter'', get user ''cover_letter''),
      (''role'', get user ''role''),
      (''createdAt'', get user ''created_at''),
      (''updatedAt'', get user ''updated_at''),
      (''getJWTToken'', Fn ''getJWTToken'')]"

definition formatUserResponse :: "row \<Rightarrow> obj" where
  "formatUserResponse user = delete_prop ''password'' (formatUser user)"

text \<open>\<^verbatim>\<open>conversions[str] || str\<close> over the model's own table. A key that names a
  property every object inherits (\<^verbatim>\<open>constructor\<close>, \<^verbatim>\<open>toString\<close>) is no field name and
  is not followed here.\<close>

definition UserModel_convertToSnakeCase :: "string \<Rightarrow> string" where
  "UserModel_convertToSnakeCase str =
     (case map_of
        [(''firstNiche'', ''first_niche''),
         (''secondNiche'', ''second_niche''),
         (''thirdNiche'', ''third_niche''),
         (''resumePublicId'', ''resume_public_id''),
         (''resumeUrl'', ''resume_url''),
         (''coverLetter'', ''cover_letter''),
         (''createdAt'', ''created_at''),
         (''updatedAt'', ''updated_at'')] str of
        None \<Rightarrow> str
      | Some c \<Rightarrow> c)"

text \<open>The password is stored hashed; \<open>hash\<close> stands for \<^verbatim>\<open>bcrypt.hash(value, 10)\<close>,
  which is not part of this repository and may fail.\<close>

definition UserModel_updateById ::
  "(val \<Rightarrow> error + val) \<Rightarrow> (string \<Rightarrow> val \<Rightarrow> val option) \<Rightarrow> table \<Rightarrow> int \<Rightarrow> val \<Rightarrow> obj \<Rightarrow>
     table \<times> (error + obj option)"
where
  "UserModel_updateById hash reads users now ident updateData =
     (case update_by_id users_columns reads UserModel_convertToSnakeCase
             (\<lambda>key v. if key = ''password'' then hash v else Inr v) users now ident updateData of
        (users', res) \<Rightarrow> (users', map_sum id (map_option formatUser) res))"

definition findByJobNiche :: "table \<Rightarrow> val \<Rightarrow> obj list" where
  "findByJobNiche users jobNiche =
     map formatUserResponse
       (order_by_created_at_desc
          (filter (\<lambda>u. sql_eq (get u ''role'') (Str ''Job Seeker'')
                       \<and> (sql_eq (get u ''first_niche'') jobNiche
                          \<or> sql_eq (get u ''second_niche'') jobNiche
                          \<or> sql_eq (get u ''third_niche'') jobNiche)) users))"

section \<open>Application model (models/applicationModel.js)\<close>

definition formatApplication :: "row \<Rightarrow> obj" where
  "formatApplication application =
     [(''id'', get application ''id''),
      (''jobSeekerUserId'', get application ''job_seeker_user_id''),
      (''jobSeekerName'', get application ''job_seeker_name''),
      (''jobSeekerEmail'', get application ''job_seeker_email''),
      (''jobSeekerPhone'', get application ''job_seeker_phone''),
      (''jobSeekerAddress'', get application ''job_seeker_address''),
      (''resumePublicId'', get application ''resume_public_id''),
      (''resumeUrl'', get application ''resume_url''),
      (''coverLetter'', get application ''cover_letter''),
      (''jobSeekerRole'', get application ''job_seeker_role''),
      (''employerUserId'', get application ''employer_user_id''),
      (''employerRole'', get application ''employer_role''),
      (''jobId'', get application ''job_id''),
      (''jobTitle'', get application ''job_title''),
      (''deletedByJobSeeker'', get application ''deleted_by_job_seeker''),
      (''deletedByEmployer'', get application ''deleted_by_employer''),
      (''createdAt'', get application ''created_at''),
      (''updatedAt'', get application ''updated_at'')]"

text \<open>\<^verbatim>\<open>result.rows[0] ? format(result.rows[0]) : null\<close>, with \<open>None\<close> for \<^verbatim>\<open>null\<close>.\<close>

definition first_row :: "(row \<Rightarrow> obj) \<Rightarrow> row list \<Rightarrow> obj option" where
  "first_row format rows = (case rows of [] \<Rightarrow> None | r # rs \<Rightarrow> Some (format r))"

definition findExisting :: "table \<Rightarrow> val \<Rightarrow> val \<Rightarrow> obj option" where
  "findExisting applications jobSeekerUserId jobId =
     first_row formatApplication
       (filter (\<lambda>a. sql_eq (get a ''job_seeker_user_id'') jobSeekerUserId
                    \<and> sql_eq (get a ''job_id'') jobId
                    \<and> sql_eq (get a ''deleted_by_job_seeker'') (Bool False)
                    \<and> sql_eq (get a ''deleted_by_employer'') (Bool False)) applications)"

text \<open>A statement whose text is fixed in the source: its columns exist in the table.\<close>

definition update_where :: "table \<Rightarrow> (string \<times> val) list \<Rightarrow> (row \<Rightarrow> bool) \<Rightarrow> table \<times> row list" where
  "update_where tbl sets wh =
     (map (\<lambda>r. if wh r then assign sets r else r) tbl, map (assign sets) (filter wh tbl))"

definition deleteByJobSeeker :: "table \<Rightarrow> int \<Rightarrow> val \<Rightarrow> val \<Rightarrow> table \<times> obj option" where
  "deleteByJobSeeker applications now ident jobSeekerUserId =
     (case update_where applications
             [(''deleted_by_job_seeker'', Bool True), (''updated_at'', Num now)]
             (\<lambda>a. sql_eq (get a ''id'') ident
                  \<and> sql_eq (get a ''job_seeker_user_id'') jobSeekerUserId) of
        (applications', rows) \<Rightarrow> (applications', first_row formatApplication rows))"

definition deleteByEmployer :: "table \<Rightarrow> int \<Rightarrow> val \<Rightarrow> val \<Rightarrow> table \<times> obj option" where
  "deleteByEmployer applications now ident employerUserId =
     (case update_where applications
             [(''deleted_by_employer'', Bool True), (''updated_at'', Num now)]
             (\<lambda>a. sql_eq (get a ''id'') ident
                  \<and> sql_eq (get a ''employer_user_id'') employerUserId) of
        (applications', rows) \<Rightarrow> (applications', first_row formatApplication rows))"

section \<open>Job model (models/jobModelRaw.js)\<close>

definition formatJob :: "row \<Rightarrow> obj" where
  "formatJob job =
     [(''id'', get job ''id''),
      (''title'', get job ''title''),
      (''jobType'', get job ''job_type''),
      (''location'', get job ''location''),
      (''companyName'', get job ''company_name''),
      (''introduction'', get job ''introduction''),
      (''responsibilities'', get job ''responsibilities''),
      (''qualifications'', get job ''qualifications''),
      (''offers'', get job ''offers''),
      (''salary'', get job ''salary''),
      (''hiringMultipleCandidates'', get job ''hiring_multiple_candidates''),
      (''personalWebsiteTitle'', get job ''personal_website_title''),
      (''personalWebsiteUrl'', get job ''personal_website_url''),
      (''jobNiche'', get job ''job_niche''),
      (''newsLettersSent'', get job ''newsletters_sent''),
      (''jobPostedOn'', get job ''job_posted_on''),
      (''postedBy'', get job ''posted_by''),
      (''createdAt'', get job ''created_at''),
      (''updatedAt'', get job ''updated_at'')]"

definition formatJobWithPoster :: "row \<Rightarrow> obj" where
  "formatJobWithPoster job =
     formatJob job
     @ (if truthy (get job ''poster_name'')
        then [(''poster'', Obj [(''name'', get job ''poster_name''),
                                (''email'', get job ''poster_email''),
                                (''role'', get job ''poster_role'')])]
        else [])"

definition JobModel_convertToSnakeCase :: "string \<Rightarrow> string" where
  "JobModel_convertToSnakeCase str =
     (case map_of
        [(''jobType'', ''job_type''),
         (''companyName'', ''company_name''),
         (''hiringMultipleCandidates'', ''hiring_multiple_candidates''),
         (''personalWebsiteTitle'', ''personal_website_title''),
         (''personalWebsiteUrl'', ''personal_website_url''),
         (''jobNiche'', ''job_niche''),
         (''newsLettersSent'', ''newsletters_sent''),
         (''jobPostedOn'', ''job_posted_on''),
         (''postedBy'', ''posted_by''),
         (''createdAt'', ''created_at''),
         (''updatedAt'', ''updated_at'')] str of
        None \<Rightarrow> str
      | Some c \<Rightarrow> c)"

definition JobModel_updateById ::
  "(string \<Rightarrow> val \<Rightarrow> val option) \<Rightarrow> table \<Rightarrow> int \<Rightarrow> val \<Rightarrow> obj \<Rightarrow> table \<times> (error + obj option)"
where
  "JobModel_updateById reads jobs now ident updateData =
     (case update_by_id jobs_columns reads JobModel_convertToSnakeCase (\<lambda>key v. Inr v)
             jobs now ident updateData of
        (jobs', res) \<Rightarrow> (jobs', map_sum id (map_option formatJob) res))"

text \<open>The row the join selects: \<^verbatim>\<open>j.*, u.name as poster_name, u.email as poster_email\<close>.\<close>

definition poster_row :: "row \<Rightarrow> row \<Rightarrow> row" where
  "poster_row j u = j @ [(''poster_name'', get u ''name''), (''poster_email'', get u ''email'')]"

definition newsletter_candidate :: "int \<Rightarrow> row \<Rightarrow> bool" where
  "newsletter_candidate now j =
     (sql_eq (get j ''newsletters_sent'') (Bool False)
      \<and> (case get j ''created_at'' of Num t \<Rightarrow> now - day \<le> t | _ \<Rightarrow> False))"

definition getJobsForNewsletter :: "table \<Rightarrow> table \<Rightarrow> int \<Rightarrow> obj list" where
  "getJobsForNewsletter users jobs now =
     map formatJobWithPoster
       (order_by_created_at_desc
          (concat (map (\<lambda>j. map (poster_row j)
                               (filter (\<lambda>u. sql_eq (get j ''posted_by'') (get u ''id'')) users))
                       (filter (newsletter_candidate now) jobs))))"

section \<open>Newsletter broadcaster (automation/newsLetterCronRaw.js)\<close>

definition newsletter_subject :: "obj \<Rightarrow> string" where
  "newsletter_subject job =
     ''Hot Job Alert: '' @ to_string (get job ''title'') @ '' in ''
     @ to_string (get job ''jobNiche'') @ '' Available Now''"

definition newsletter_message :: "obj \<Rightarrow> obj \<Rightarrow> string" where
  "newsletter_message job user =
     ''Hi '' @ to_string (get user ''name'') @ '',\<newline>\<newline>''
     @ ''Great news! A new job that fits your niche has just been posted. The position is for a ''
     @ to_string (get job ''title'') @ '' with '' @ to_string (get job ''companyName'')
     @ '', and they are looking to hire immediately.\<newline>\<newline>''
     @ ''Job Details:\<newline>''
     @ ''- **Position:** '' @ to_string (get job ''title'') @ ''\<newline>''
     @ ''- **Company:** '' @ to_string (get job ''companyName'') @ ''\<newline>''
     @ ''- **Location:** '' @ to_string (get job ''location'') @ ''\<newline>''
     @ ''- **Salary:** '' @ to_string (get job ''salary'') @ ''\<newline>\<newline>''
     @ ''Don't wait too long! Job openings like these are filled quickly. \<newline>\<newline>''
     @ ''We're here to support you in your job search. Best of luck!\<newline>\<newline>''
     @ ''Best Regards,\<newline>JobSphere Team''"

definition newsletter_mail :: "obj \<Rightarrow> obj \<Rightarrow> obj" where
  "newsletter_mail job user =
     [(''email'', get user ''email''),
      (''subject'', Str (newsletter_subject job)),
      (''message'', Str (newsletter_message job user))]"

text \<open>
  The mail transport is outside the repository. \<open>delivers n\<close> tells whether the send
  attempt number \<open>n\<close> of the run (counted from 0) succeeds; a failed attempt is the
  exception that the inner \<^verbatim>\<open>try\<close> catches and logs. The outbox lists every attempt
  of the run in order, with its outcome.
\<close>

record cron_state =
  jobs_table :: table
  outbox :: "(obj \<times> bool) list"

fun send_to_users :: "(nat \<Rightarrow> bool) \<Rightarrow> obj \<Rightarrow> obj list \<Rightarrow> (obj \<times> bool) list \<Rightarrow> (obj \<times> bool) list" where
  "send_to_users delivers job [] out = out"
| "send_to_users delivers job (user # rest) out =
     send_to_users delivers job rest (out @ [(newsletter_mail job user, delivers (length out))])"

text \<open>The body of the loop over the fetched postings. A failure of the update is caught
  by the \<^verbatim>\<open>try\<close> around the body; the table it returns is then the old one. The
  subscriber lookup is a read of the users table and does not fail in the model.\<close>

definition process_job ::
  "(string \<Rightarrow> val \<Rightarrow> val option) \<Rightarrow> table \<Rightarrow> int \<Rightarrow> (nat \<Rightarrow> bool) \<Rightarrow> cron_state \<Rightarrow> obj \<Rightarrow> cron_state"
where
  "process_job reads users now delivers st job =
     (let filteredUsers = findByJobNiche users (get job ''jobNiche'') in
      if length filteredUsers = 0 then st
      else
        let out = send_to_users delivers job filteredUsers (outbox st);
            upd = JobModel_updateById reads (jobs_table st) now (get job ''id'')
                    [(''newsLettersSent'', Bool True)]
        in \<lparr>jobs_table = fst upd, outbox = out\<rparr>)"

text \<open>One firing of the schedule, at clock reading \<open>now\<close>, against a store that reads
  bound values as \<open>reads\<close> says.\<close>

definition newsLetterCron ::
  "(string \<Rightarrow> val \<Rightarrow> val option) \<Rightarrow> table \<Rightarrow> table \<Rightarrow> int \<Rightarrow> (nat \<Rightarrow> bool) \<Rightarrow> cron_state"
where
  "newsLetterCron reads users jobs now delivers =
     (let fetched = getJobsForNewsletter users jobs now in
      if length fetched = 0 then \<lparr>jobs_table = jobs, outbox = []\<rparr>
      else foldl (process_job reads users now delivers) \<lparr>jobs_table = jobs, outbox = []\<rparr> fetched)"

section \<open>Validation functions\<close>

text \<open>The test \<^verbatim>\<open>/^[^\s@]+@[^\s@]+\.[^\s@]+$/\<close>: a non-empty run free of white space and
  \<^verbatim>\<open>@\<close>, one \<^verbatim>\<open>@\<close>, then a run of such characters holding a dot that is neither
  its first nor its last character.\<close>

definition email_char :: "char \<Rightarrow> bool" where
  "email_char c = (\<not> is_space c \<and> c \<noteq> CHR ''@'')"

definition email_regex :: "string \<Rightarrow> bool" where
  "email_regex s =
     (takeWhile email_char s \<noteq> []
      \<and> (case dropWhile email_char s of
            [] \<Rightarrow> False
          | c # r \<Rightarrow> c = CHR ''@'' \<and> list_all email_char r \<and> CHR ''.'' \<in> set (butlast (tl r))))"

text \<open>\<^verbatim>\<open>v.length\<close> on a value that is not \<^verbatim>\<open>null\<close> or \<^verbatim>\<open>undefined\<close>; the one
  function this code builds takes no parameter.\<close>

fun prop_length :: "val \<Rightarrow> val" where
  "prop_length (Str s) = Num (int (length s))"
| "prop_length (Obj ps) = get ps ''length''"
| "prop_length (Fn f) = Num 0"
| "prop_length v = Undefined"

definition num_lt :: "val \<Rightarrow> int \<Rightarrow> bool" where
  "num_lt v k = (case to_number v of Num n \<Rightarrow> n < k | _ \<Rightarrow> False)"

definition num_gt :: "val \<Rightarrow> int \<Rightarrow> bool" where
  "num_gt v k = (case to_number v of Num n \<Rightarrow> k < n | _ \<Rightarrow> False)"

fun message :: "error \<Rightarrow> string" where
  "message (Error m) = m"
| "message (TypeError m) = m"

text \<open>The check \<^verbatim>\<open>!v || v.trim().length === 0\<close> followed by the push of \<open>msg\<close>. A value
  that is truthy and not a string has no \<^verbatim>\<open>trim\<close> method (request data holds no
  function), so the call throws.\<close>

definition required_text :: "val \<Rightarrow> string \<Rightarrow> string list \<Rightarrow> error + string list" where
  "required_text v msg errors =
     (if \<not> truthy v then Inr (errors @ [msg])
      else (case v of
              Str s \<Rightarrow> Inr (if length (trim s) = 0 then errors @ [msg] else errors)
            | _ \<Rightarrow> Inl (TypeError ''trim is not a function'')))"

definition required :: "val \<Rightarrow> string \<Rightarrow> string list \<Rightarrow> error + string list" where
  "required v msg errors = Inr (if \<not> truthy v then errors @ [msg] else errors)"

text \<open>Statements run in order on the list of errors so far; an exception ends the run.\<close>

definition then_check ::
  "error + string list \<Rightarrow> (string list \<Rightarrow> error + string list) \<Rightarrow> error + string list"
where
  "then_check r f = (case r of Inl e \<Rightarrow> Inl e | Inr errors \<Rightarrow> f errors)"

definition validateApplicationData :: "obj \<Rightarrow> error + string list" where
  "validateApplicationData applicationData =
     foldl then_check (Inr [])
       [required (get applicationData ''jobSeekerUserId'') ''Job seeker user ID is required'',
        required_text (get applicationData ''jobSeekerName'') ''Job seeker name is required'',
        (\<lambda>errors.
           Inr (if \<not> truthy (get applicationData ''jobSeekerEmail'')
                   \<or> \<not> email_regex (to_string (get applicationData ''jobSeekerEmail''))
                then errors @ [''Valid job seeker email is required''] else errors)),
        (\<lambda>errors.
           if \<not> truthy (get applicationData ''jobSeekerPhone'')
           then Inr (errors @ [''Job seeker phone is required''])
           else (case convertPhoneToNumber (get applicationData ''jobSeekerPhone'') of
                   Inl e \<Rightarrow> Inl e
                 | Inr phoneNumber \<Rightarrow>
                     Inr (if phoneNumber = Null
                          then errors @ [''Please provide a valid job seeker phone number (10-15 digits)'']
                          else errors))),
        required_text (get applicationData ''jobSeekerAddress'') ''Job seeker address is required'',
        required_text (get applicationData ''coverLetter'') ''Cover letter is required'',
        required (get applicationData ''employerUserId'') ''Employer user ID is required'',
        required (get applicationData ''jobId'') ''Job ID is required'',
        required_text (get applicationData ''jobTitle'') ''Job title is required'']"

definition validateUserData :: "obj \<Rightarrow> string list" where
  "validateUserData userData =
     (let e1 = (if \<not> truthy (get userData ''name'')
                  \<or> num_lt (prop_length (get userData ''name'')) 3
                  \<or> num_gt (prop_length (get userData ''name'')) 30
                then [''Name must be between 3 and 30 characters''] else []);
          e2 = (if \<not> truthy (get userData ''email'')
                  \<or> \<not> email_regex (to_string (get userData ''email''))
                then [''Please provide a valid email''] else []);
          e3 = (if \<not> truthy (get userData ''phone'') then [''Please provide a phone number'']
                else (case convertPhoneToNumber (get userData ''phone'') of
                        Inl e \<Rightarrow> [message e]
                      | Inr n \<Rightarrow> []));
          e4 = (if \<not> truthy (get userData ''password'')
                  \<or> num_lt (prop_length (get userData ''password'')) 8
                  \<or> num_gt (prop_length (get userData ''password'')) 32
                then [''Password must be between 8 and 32 characters''] else []);
          e5 = (if \<not> truthy (get userData ''role'')
                  \<or> get userData ''role'' \<notin> {Str ''Job Seeker'', Str ''Employer''}
                then [''Role must be either \"Job Seeker\" or \"Employer\"''] else []);
          e6 = (if get userData ''role'' = Str ''Job Seeker''
                  \<and> (\<not> truthy (get userData ''firstNiche'')
                     \<or> \<not> truthy (get userData ''secondNiche'')
                     \<or> \<not> truthy (get userData ''thirdNiche''))
                then [''Job Seekers must provide three job niches''] else [])
      in e1 @ e2 @ e3 @ e4 @ e5 @ e6)"

definition validateJobData :: "obj \<Rightarrow> error + string list" where
  "validateJobData jobData =
     foldl then_check (Inr [])
       [required_text (get jobData ''title'') ''Job title is required'',
        (\<lambda>errors.
           Inr (if \<not> truthy (get jobData ''jobType'')
                   \<or> get jobData ''jobType'' \<notin> {Str ''Full-time'', Str ''Part-time''}
                then errors @ [''Job type must be either \"Full-time\" or \"Part-time\"'']
                else errors)),
        required_text (get jobData ''location'') ''Job location is required'',
        required_text (get jobData ''companyName'') ''Company name is required'',
        required_text (get jobData ''responsibilities'') ''Job responsibilities are required'',
        required_text (get jobData ''qualifications'') ''Job qualifications are required'',
        required_text (get jobData ''salary'') ''Salary information is required'',
        required_text (get jobData ''jobNiche'') ''Job niche is required'',
        required (get jobData ''postedBy'') ''Posted by user ID is required'']"

section \<open>Example data\<close>

definition app_row :: "string \<Rightarrow> string \<Rightarrow> string \<Rightarrow> bool \<Rightarrow> bool \<Rightarrow> row" where
  "app_row a s j djs de =
     [(''id'', Str a), (''job_seeker_user_id'', Str s), (''employer_user_id'', Str ''e1''),
      (''job_id'', Str j), (''job_title'', Str ''Clerk''),
      (''deleted_by_job_seeker'', Bool djs), (''deleted_by_employer'', Bool de),
      (''created_at'', Num 1000), (''updated_at'', Num 1000)]"

definition example_applications :: table where
  "example_applications =
     [app_row ''a1'' ''s1'' ''j1'' False False, app_row ''a2'' ''s2'' ''j1'' False False]"

definition user_row :: "string \<Rightarrow> string \<Rightarrow> val \<Rightarrow> val \<Rightarrow> val \<Rightarrow> int \<Rightarrow> row" where
  "user_row i role n1 n2 n3 t =
     [(''id'', Str i), (''name'', Str (''User '' @ i)), (''email'', Str (i @ ''@example.com'')),
      (''phone'', Str ''9876543210''), (''address'', Str ''Pune''),
      (''first_niche'', n1), (''second_niche'', n2), (''third_niche'', n3),
      (''password'', Str (''$2b$10$hash-of-'' @ i)), (''resume_public_id'', Null),
      (''resume_url'', Null), (''cover_letter'', Null), (''role'', Str role),
      (''created_at'', Num t), (''updated_at'', Num t)]"

definition example_users :: table where
  "example_users =
     [user_row ''u1'' ''Job Seeker'' (Str ''IT'') (Str ''Design'') (Str ''HR'') 100,
      user_row ''u2'' ''Job Seeker'' (Str ''it'') (Str ''IT Support'') (Str ''Sales'') 200,
      user_row ''u3'' ''Employer'' (Str ''IT'') Null Null 300,
      user_row ''u4'' ''Job Seeker'' (Str ''Law'') (Str ''Sales'') (Str ''IT'') 400]"

definition bad_application :: obj where
  "bad_application =
     [(''jobSeekerUserId'', Str ''u1''), (''jobSeekerName'', Str ''Asha''),
      (''jobSeekerEmail'', Str ''asha-at-example''), (''jobSeekerPhone'', Str ''12345''),
      (''jobSeekerAddress'', Str ''Pune''), (''coverLetter'', Str '' ''),
      (''employerUserId'', Str ''u3''), (''jobId'', Str ''j1''), (''jobTitle'', Str ''Clerk'')]"

definition bad_user :: obj where
  "bad_user =
     [(''name'', Str ''Al''), (''email'', Str ''al-at-example''), (''phone'', Str ''12345''),
      (''password'', Str ''short''), (''role'', Str ''Job Seeker'')]"

definition job_row :: "string \<Rightarrow> string \<Rightarrow> bool \<Rightarrow> int \<Rightarrow> row" where
  "job_row i niche sent t =
     [(''id'', Str i), (''title'', Str (''Clerk '' @ i)), (''job_type'', Str ''Full-time''),
      (''location'', Str ''Pune''), (''company_name'', Str ''Acme''), (''introduction'', Null),
      (''responsibilities'', Str ''Filing''), (''qualifications'', Str ''None''),
      (''offers'', Str ''Lunch''), (''salary'', Str ''20000''),
      (''hiring_multiple_candidates'', Str ''No''), (''personal_website_title'', Null),
      (''personal_website_url'', Null), (''job_niche'', Str niche),
      (''newsletters_sent'', Bool sent), (''job_posted_on'', Num t), (''posted_by'', Str ''u3''),
      (''created_at'', Num t), (''updated_at'', Num t)]"

definition example_now :: int where
  "example_now = 100000000000"

definition example_jobs :: table where
  "example_jobs =
     [job_row ''j1'' ''IT'' False 90000000000,
      job_row ''j2'' ''IT'' False 1000,
      job_row ''j3'' ''Farming'' False 95000000000,
      job_row ''j4'' ''Sales'' True 95000000000]"

definition example_update :: obj where
  "example_update = [(''offers'', Null), (''title'', Undefined), (''jobNiche'', Str ''Law'')]"

definition example_hash :: "val \<Rightarrow> error + val" where
  "example_hash v =
     (case v of
        Str s \<Rightarrow> Inr (Str (''$2b$10$hash-of-'' @ s))
      | _ \<Rightarrow> Inl (Error ''data and salt arguments required''))"

definition example_user_update :: obj where
  "example_user_update = [(''password'', Str ''new-secret''), (''coverLetter'', Null)]"

text \<open>A store that keeps every value it is given for the columns left to it.\<close>

definition example_reads :: "string \<Rightarrow> val \<Rightarrow> val option" where
  "example_reads c v = Some v"

definition all_delivered :: "nat \<Rightarrow> bool" where
  "all_delivered n = True"

definition none_delivered :: "nat \<Rightarrow> bool" where
  "none_delivered n = False"

section \<open>Properties of the phone utilities\<close>

lemma dec_value_snoc: "dec_value (xs @ [c]) = 10 * dec_value xs + digit_val c"
  by (simp add: dec_value_def)

lemma digit_val_digit_char: "0 \<le> d \<Longrightarrow> d < 10 \<Longrightarrow> digit_val (digit_char d) = d"
  by (simp add: digit_val_def digit_char_def)

lemma digit_char_digit_val: "is_digit c \<Longrightarrow> digit_char (digit_val c) = c"
  by (simp add: digit_val_def digit_char_def is_digit_def)

lemma digit_val_range: "is_digit c \<Longrightarrow> 0 \<le> digit_val c \<and> digit_val c < 10"
  by (simp add: digit_val_def is_digit_def)

lemma is_digit_digit_char: "0 \<le> d \<Longrightarrow> d < 10 \<Longrightarrow> is_digit (digit_char d)"
  by (simp add: is_digit_def digit_char_def)

lemma dec_value_dec: "0 \<le> n \<Longrightarrow> dec_value (dec n) = n"
proof (induction n rule: dec.induct)
  case (1 n)
  show ?case
  proof (cases "n < 10")
    case True
    with "1.prems" show ?thesis
      by (simp add: dec.simps [of n] dec_value_def digit_val_digit_char)
  next
    case False
    with "1.prems" have "dec_value (dec (n div 10)) = n div 10"
      using "1.IH" by simp
    with False show ?thesis
      by (simp add: dec.simps [of n] dec_value_snoc digit_val_digit_char)
  qed
qed

lemma dec_digits: "0 \<le> n \<Longrightarrow> list_all is_digit (dec n)"
proof (induction n rule: dec.induct)
  case (1 n)
  show ?case
  proof (cases "n < 10")
    case True
    with "1.prems" show ?thesis
      by (simp add: dec.simps [of n] is_digit_digit_char)
  next
    case False
    with "1.prems" have "list_all is_digit (dec (n div 10))"
      using "1.IH" by simp
    with False show ?thesis
      by (simp add: dec.simps [of n] is_digit_digit_char)
  qed
qed

lemma dec_dec_value:
  "list_all is_digit s \<Longrightarrow> s \<noteq> [] \<Longrightarrow> hd s \<noteq> CHR ''0'' \<Longrightarrow>
     dec (dec_value s) = s \<and> 0 < dec_value s"
proof (induction s rule: rev_induct)
  case Nil
  then show ?case by simp
next
  case (snoc c xs)
  have dc: "is_digit c" using snoc.prems(1) by simp
  show ?case
  proof (cases "xs = []")
    case True
    with snoc.prems have "c \<noteq> CHR ''0''" by simp
    then have "(of_char c :: int) \<noteq> of_char (CHR ''0'')"
      by (simp only: of_char_eq_iff not_False_eq_True)
    then have "digit_val c \<noteq> 0"
      by (simp add: digit_val_def)
    with dc digit_val_range [of c] have r: "0 < digit_val c" "digit_val c < 10" by auto
    with True dc show ?thesis
      by (simp add: dec_value_def dec.simps [of "digit_val c"] digit_char_digit_val)
  next
    case False
    with snoc.prems have "list_all is_digit xs" "hd xs \<noteq> CHR ''0''" by auto
    with False snoc.IH have ih: "dec (dec_value xs) = xs" "0 < dec_value xs" by auto
    from dc digit_val_range [of c] have r: "0 \<le> digit_val c" "digit_val c < 10" by auto
    from ih r show ?thesis
      by (simp add: dec_value_snoc dec.simps [of "10 * dec_value xs + digit_val c"]
            digit_char_digit_val [OF dc])
  qed
qed

lemma digit_not_space: "is_digit c \<Longrightarrow> \<not> is_space c"
  by (auto simp: is_digit_def is_space_def)

lemma parseInt_digits:
  assumes "list_all is_digit s" "s \<noteq> []"
  shows "parseInt s = Num (dec_value s)"
proof -
  from assms obtain c r where s: "s = c # r" by (cases s) auto
  with assms have c: "is_digit c" by simp
  have sp: "dropWhile is_space s = s" using s c digit_not_space by simp
  have sg: "take 1 s \<noteq> ''-''" "take 1 s \<noteq> ''+''"
    using s c by (auto simp: is_digit_def)
  have hx: "take 2 s \<noteq> ''0x''" "take 2 s \<noteq> ''0X''"
    using s assms(1) by (cases r; auto simp: is_digit_def)+
  have tw: "takeWhile is_digit s = s"
    using assms(1) by (simp add: list_all_iff)
  show ?thesis
    unfolding parseInt_def Let_def sp using sg hx assms(2) by (simp add: tw)
qed

lemma phone_regex_digits:
  "phone_regex s \<Longrightarrow> list_all is_digit s \<and> s \<noteq> [] \<and> hd s \<noteq> CHR ''0'' \<and> length s = 10"
  by (cases s) (auto simp: phone_regex_def is_digit_def)

lemma parseInt_result: "parseInt s = NaN \<or> (\<exists>k. parseInt s = Num k)"
  by (simp add: parseInt_def Let_def)

lemma convert_result:
  assumes "convertPhoneToNumber p = Inr n"
  shows "\<exists>k. n = Num k \<and> 0 < k \<and> phone_regex (dec k)"
proof -
  define pn where "pn = (case p of Str s \<Rightarrow> parseInt s | _ \<Rightarrow> p)"
  from assms have n: "n = pn" and nan: "\<not> js_isNaN pn" and pos: "\<not> le_zero pn"
    and rx: "phone_regex (to_string pn)" and tr: "truthy p"
    by (auto simp: convertPhoneToNumber_def Let_def pn_def split: if_splits)
  have nostr: "pn \<noteq> Str s" for s
  proof (cases p)
    case (Str x)
    with parseInt_result [of x] show ?thesis by (auto simp: pn_def)
  qed (use tr in \<open>auto simp: pn_def\<close>)
  show ?thesis
  proof (cases pn)
    case (Num k)
    with pos have "0 < k" by (simp add: le_zero_def)
    with Num rx n show ?thesis by simp
  next
    case (Bool b)
    with rx show ?thesis by (cases b) (simp_all add: phone_regex_def)
  qed (use nan pos rx nostr in \<open>auto simp: js_isNaN_def le_zero_def\<close>)
qed

lemma convert_Num:
  "0 < k \<Longrightarrow> phone_regex (dec k) \<Longrightarrow> convertPhoneToNumber (Num k) = Inr (Num k)"
  by (simp add: convertPhoneToNumber_def js_isNaN_def le_zero_def)

lemma convert_digit_string:
  assumes "phone_regex s"
  shows "convertPhoneToNumber (Str s) = Inr (Num (dec_value s))"
proof -
  from phone_regex_digits [OF assms]
  have d: "list_all is_digit s" "s \<noteq> []" "hd s \<noteq> CHR ''0''" by auto
  from dec_dec_value [OF d] have "dec (dec_value s) = s" "0 < dec_value s" by auto
  with assms d show ?thesis
    by (simp add: convertPhoneToNumber_def parseInt_digits js_isNaN_def le_zero_def)
qed

lemma slice_take_drop:
  "i \<le> j \<Longrightarrow> j \<le> length s \<Longrightarrow> slice s (int i) (Some (int j)) = take (j - i) (drop i s)"
  "i \<le> length s \<Longrightarrow> slice s (int i) None = drop i s"
  by (simp_all add: slice_def slice_index_def Let_def)

lemma slice_neg:
  "i \<le> length s \<Longrightarrow> j \<le> i \<Longrightarrow> 0 < j \<Longrightarrow>
     slice s (- int i) (Some (- int j)) = take (i - j) (drop (length s - i) s)"
  "i \<le> length s \<Longrightarrow> 0 < i \<Longrightarrow> slice s (- int i) None = drop (length s - i) s"
  by (auto simp: slice_def slice_index_def Let_def nat_diff_distrib' max_def)

lemma formatPhoneStr_eq:
  "formatPhoneStr s =
     (if length s = 10
      then ''('' @ take 3 s @ '') '' @ take 3 (drop 3 s) @ ''-'' @ drop 6 s
      else if length s = 11 \<and> take 1 s = ''1''
      then ''+1 ('' @ take 3 (drop 1 s) @ '') '' @ take 3 (drop 4 s) @ ''-'' @ drop 7 s
      else if 10 \<le> length s
      then ''+'' @ take (length s - 10) s @ '' '' @ take 4 (drop (length s - 10) s) @ '' ''
           @ drop (length s - 6) s
      else s)"
proof -
  have a: "length s = 10 \<Longrightarrow> slice s 0 (Some 3) = take 3 s \<and> slice s 3 (Some 6) = take 3 (drop 3 s)
      \<and> slice s 6 None = drop 6 s"
    using slice_take_drop(1) [of 0 3 s] slice_take_drop(1) [of 3 6 s] slice_take_drop(2) [of 6 s]
    by simp
  have b: "length s = 11 \<Longrightarrow> slice s 1 (Some 4) = take 3 (drop 1 s) \<and> slice s 4 (Some 7) = take 3 (drop 4 s)
      \<and> slice s 7 None = drop 7 s"
    using slice_take_drop(1) [of 1 4 s] slice_take_drop(1) [of 4 7 s] slice_take_drop(2) [of 7 s]
    by simp
  have c: "10 \<le> length s \<Longrightarrow> slice s 0 (Some (int (length s) - 10)) = take (length s - 10) s
      \<and> slice s (- 10) (Some (- 6)) = take 4 (drop (length s - 10) s)
      \<and> slice s (- 6) None = drop (length s - 6) s"
    using slice_take_drop(1) [of 0 "length s - 10" s] slice_neg(1) [of 10 s 6] slice_neg(2) [of 6 s]
    by (simp add: of_nat_diff)
  show ?thesis
    unfolding formatPhoneStr_def using a b c by auto
qed

lemma filter_digits_all: "list_all is_digit s \<Longrightarrow> filter is_digit s = s"
  by (simp add: list_all_iff)

lemma filter_digits_format:
  assumes "list_all is_digit s" "length s = 10"
  shows "filter is_digit (formatPhoneStr s) = s"
proof -
  have p: "\<not> is_digit CHR ''(''" "\<not> is_digit CHR '')''" "\<not> is_digit CHR '' ''"
    "\<not> is_digit CHR ''-''"
    by (simp_all add: is_digit_def)
  have t: "list_all is_digit (take 3 s)" "list_all is_digit (take 3 (drop 3 s))"
    "list_all is_digit (drop 6 s)"
    using assms(1) by (auto simp: list_all_iff dest: in_set_takeD in_set_dropD)
  have "take 3 s @ take 3 (drop 3 s) @ drop 6 s = s"
    by (metis append_take_drop_id append_assoc take_add numeral_Bit0 numeral_3_eq_3)
  then show ?thesis
    using assms(2) t by (simp add: formatPhoneStr_eq p filter_digits_all)
qed

lemma isValidPhoneNumber_iff:
  "isValidPhoneNumber p \<longleftrightarrow> (\<exists>n. convertPhoneToNumber p = Inr n)"
  by (simp add: isValidPhoneNumber_def split: sum.splits)

lemma safeConvertPhoneToNumber_cases:
  "convertPhoneToNumber p = Inr n \<Longrightarrow> safeConvertPhoneToNumber p = n"
  "convertPhoneToNumber p = Inl e \<Longrightarrow> safeConvertPhoneToNumber p = Null"
  by (simp_all add: safeConvertPhoneToNumber_def)

text \<open>
  Claim C4. The strict parser is meant to accept exactly the ten-digit strings that start
  with 6, 7, 8 or 9, and its own messages say "digits only" and "must be 10 digits". It
  reads a string with \<^verbatim>\<open>parseInt\<close>, which stops at the first character that is not a
  digit, skips leading white space and a sign, and reads a \<^verbatim>\<open>0x\<close> prefix as base 16;
  the ten-digit test is then made on the number, not on the input. So a string with text
  after ten digits, one with leading zeros (13 characters), and a hexadecimal literal are
  all accepted.
\<close>

theorem convertPhoneToNumber_accepts_malformed:
  "convertPhoneToNumber (Str ''9876543210abc'') = Inr (Num 9876543210)
   \<and> convertPhoneToNumber (Str ''0009876543210'') = Inr (Num 9876543210)
   \<and> convertPhoneToNumber (Str ''0x24CB016EA'') = Inr (Num 9876543210)
   \<and> isValidPhoneNumber (Str ''9876543210abc'')"
  by code_simp

text \<open>
  Claim C9. A number the strict parser returns survives display formatting followed by
  \<open>parseFormattedPhone\<close>. On a string, or on a number that JavaScript renders digit by
  digit, the formatter prints a rendering of length 10 as
  \<^verbatim>\<open>(ddd) ddd-dddd\<close>, one of length 11 that starts with 1 as \<^verbatim>\<open>+1 (ddd) ddd-dddd\<close>,
  any other rendering of length 11 or more as \<^verbatim>\<open>+prefix dddd dddddd\<close>, and a shorter
  one unchanged.
\<close>

theorem phone_display_roundtrip:
  "(convertPhoneToNumber p = Inr n \<longrightarrow>
      (\<exists>s. formatPhoneForDisplay n = Inr s \<and> parseFormattedPhone (Str s) = Inr n))
   \<and> (v \<noteq> Undefined \<and> v \<noteq> Null \<and> (\<forall>m. v = Num m \<longrightarrow> \<bar>m\<bar> < 2 ^ 53) \<longrightarrow>
      formatPhoneForDisplay v = Inr
        (let s = to_string v in
         if length s = 10
         then ''('' @ take 3 s @ '') '' @ take 3 (drop 3 s) @ ''-'' @ drop 6 s
         else if length s = 11 \<and> take 1 s = ''1''
         then ''+1 ('' @ take 3 (drop 1 s) @ '') '' @ take 3 (drop 4 s) @ ''-'' @ drop 7 s
         else if 10 \<le> length s
         then ''+'' @ take (length s - 10) s @ '' '' @ take 4 (drop (length s - 10) s) @ '' ''
              @ drop (length s - 6) s
         else s))"
proof (intro conjI impI)
  assume a: "convertPhoneToNumber p = Inr n"
  from convert_result [OF a] obtain k where k: "n = Num k" "0 < k" "phone_regex (dec k)"
    by blast
  from phone_regex_digits [OF k(3)] have d: "list_all is_digit (dec k)" "length (dec k) = 10"
    by auto
  have f: "formatPhoneForDisplay n = Inr (formatPhoneStr (dec k))"
    using k by (simp add: formatPhoneForDisplay_def)
  have "parseFormattedPhone (Str (formatPhoneStr (dec k))) = convertPhoneToNumber (Str (dec k))"
    by (simp add: parseFormattedPhone_def filter_digits_format [OF d])
  also have "\<dots> = Inr (Num (dec_value (dec k)))"
    by (rule convert_digit_string [OF k(3)])
  also have "\<dots> = Inr n"
    using k by (simp add: dec_value_dec)
  finally show "\<exists>s. formatPhoneForDisplay n = Inr s \<and> parseFormattedPhone (Str s) = Inr n"
    using f by blast
next
  assume "v \<noteq> Undefined \<and> v \<noteq> Null \<and> (\<forall>m. v = Num m \<longrightarrow> \<bar>m\<bar> < 2 ^ 53)"
  then have "formatPhoneForDisplay v = Inr (formatPhoneStr (to_string v))"
    by (cases v) (simp_all add: formatPhoneForDisplay_def)
  then show "formatPhoneForDisplay v = Inr
        (let s = to_string v in
         if length s = 10
         then ''('' @ take 3 s @ '') '' @ take 3 (drop 3 s) @ ''-'' @ drop 6 s
         else if length s = 11 \<and> take 1 s = ''1''
         then ''+1 ('' @ take 3 (drop 1 s) @ '') '' @ take 3 (drop 4 s) @ ''-'' @ drop 7 s
         else if 10 \<le> length s
         then ''+'' @ take (length s - 10) s @ '' '' @ take 4 (drop (length s - 10) s) @ '' ''
              @ drop (length s - 6) s
         else s)"
    by (simp only: formatPhoneStr_eq [of "to_string v"] Let_def)
qed

theorem phone_display_roundtrip_witness:
  "convertPhoneToNumber (Str ''9876543210'') = Inr (Num 9876543210)
   \<and> (\<exists>s. formatPhoneForDisplay (Num 9876543210) = Inr s
          \<and> parseFormattedPhone (Str s) = Inr (Num 9876543210))
   \<and> formatPhoneForDisplay (Num 9876543210) = Inr ''(987) 654-3210''
   \<and> formatPhoneForDisplay (Str ''19876543210'') = Inr ''+1 (987) 654-3210''
   \<and> formatPhoneForDisplay (Str ''919876543210'') = Inr ''+91 9876 543210''
   \<and> formatPhoneForDisplay (Str ''12345'') = Inr ''12345''"
proof -
  have h: "convertPhoneToNumber (Str ''9876543210'') = Inr (Num 9876543210)"
    by code_simp
  have e: "formatPhoneForDisplay (Num 9876543210) = Inr ''(987) 654-3210''"
    "formatPhoneForDisplay (Str ''19876543210'') = Inr ''+1 (987) 654-3210''"
    "formatPhoneForDisplay (Str ''919876543210'') = Inr ''+91 9876 543210''"
    "formatPhoneForDisplay (Str ''12345'') = Inr ''12345''"
    by code_simp+
  from phone_display_roundtrip [of "Str ''9876543210''" "Num 9876543210" "Num 9876543210"] h e
  show ?thesis by blast
qed

section \<open>Properties of the models\<close>

lemma get_set_col: "get (set_col c v r) k = (if k = c then v else get r k)"
  by (induction r) (auto simp: get_def)

lemma sql_eq_flag: "sql_eq x (Bool b) \<longleftrightarrow> x = Bool b"
  by (auto simp: sql_eq_def)

lemma first_row_None: "first_row f rows = None \<longleftrightarrow> rows = []"
  by (simp add: first_row_def split: list.splits)

lemma first_row_Some: "first_row f rows = Some x \<Longrightarrow> \<exists>r\<in>set rows. x = f r"
  by (auto simp: first_row_def split: list.splits)

text \<open>
  Claim C3. \<open>findExisting\<close> returns nothing exactly when no stored application of the
  job seeker for the job has both deletion flags false, and whatever it returns is such a
  row, every column of it under its application-facing name: a row with either flag set is
  never returned and does not block a new application.
\<close>

theorem findExisting_active_only:
  "(findExisting applications s j = None \<longleftrightarrow>
      \<not> (\<exists>a\<in>set applications.
            sql_eq (get a ''job_seeker_user_id'') s \<and> sql_eq (get a ''job_id'') j
            \<and> get a ''deleted_by_job_seeker'' = Bool False
            \<and> get a ''deleted_by_employer'' = Bool False))
   \<and> (\<forall>x. findExisting applications s j = Some x \<longrightarrow>
         (\<exists>a\<in>set applications.
            sql_eq (get a ''job_seeker_user_id'') s \<and> sql_eq (get a ''job_id'') j
            \<and> get a ''deleted_by_job_seeker'' = Bool False
            \<and> get a ''deleted_by_employer'' = Bool False
            \<and> x = [(''id'', get a ''id''),
                    (''jobSeekerUserId'', get a ''job_seeker_user_id''),
                    (''jobSeekerName'', get a ''job_seeker_name''),
                    (''jobSeekerEmail'', get a ''job_seeker_email''),
                    (''jobSeekerPhone'', get a ''job_seeker_phone''),
                    (''jobSeekerAddress'', get a ''job_seeker_address''),
                    (''resumePublicId'', get a ''resume_public_id''),
                    (''resumeUrl'', get a ''resume_url''),
                    (''coverLetter'', get a ''cover_letter''),
                    (''jobSeekerRole'', get a ''job_seeker_role''),
                    (''employerUserId'', get a ''employer_user_id''),
                    (''employerRole'', get a ''employer_role''),
                    (''jobId'', get a ''job_id''),
                    (''jobTitle'', get a ''job_title''),
                    (''deletedByJobSeeker'', Bool False),
                    (''deletedByEmployer'', Bool False),
                    (''createdAt'', get a ''created_at''),
                    (''updatedAt'', get a ''updated_at'')]))
   \<and> (\<forall>a rest. filter (\<lambda>a. sql_eq (get a ''job_seeker_user_id'') s \<and> sql_eq (get a ''job_id'') j
                          \<and> get a ''deleted_by_job_seeker'' = Bool False
                          \<and> get a ''deleted_by_employer'' = Bool False) applications = a # rest
         \<longrightarrow> findExisting applications s j = Some (formatApplication a))"
proof -
  let ?P = "\<lambda>a. sql_eq (get a ''job_seeker_user_id'') s \<and> sql_eq (get a ''job_id'') j
                          \<and> get a ''deleted_by_job_seeker'' = Bool False
                          \<and> get a ''deleted_by_employer'' = Bool False"
  have f: "findExisting applications s j = first_row formatApplication (filter ?P applications)"
    by (simp add: findExisting_def sql_eq_flag)
  have A: "findExisting applications s j = None \<longleftrightarrow> \<not> (\<exists>a\<in>set applications. ?P a)"
    unfolding f by (simp add: first_row_None filter_empty_conv)
  have B: "\<forall>x. findExisting applications s j = Some x \<longrightarrow>
         (\<exists>a\<in>set applications.
            sql_eq (get a ''job_seeker_user_id'') s \<and> sql_eq (get a ''job_id'') j
            \<and> get a ''deleted_by_job_seeker'' = Bool False
            \<and> get a ''deleted_by_employer'' = Bool False
            \<and> x = [(''id'', get a ''id''),
                    (''jobSeekerUserId'', get a ''job_seeker_user_id''),
                    (''jobSeekerName'', get a ''job_seeker_name''),
                    (''jobSeekerEmail'', get a ''job_seeker_email''),
                    (''jobSeekerPhone'', get a ''job_seeker_phone''),
                    (''jobSeekerAddress'', get a ''job_seeker_address''),
                    (''resumePublicId'', get a ''resume_public_id''),
                    (''resumeUrl'', get a ''resume_url''),
                    (''coverLetter'', get a ''cover_letter''),
                    (''jobSeekerRole'', get a ''job_seeker_role''),
                    (''employerUserId'', get a ''employer_user_id''),
                    (''employerRole'', get a ''employer_role''),
                    (''jobId'', get a ''job_id''),
                    (''jobTitle'', get a ''job_title''),
                    (''deletedByJobSeeker'', Bool False),
                    (''deletedByEmployer'', Bool False),
                    (''createdAt'', get a ''created_at''),
                    (''updatedAt'', get a ''updated_at'')])"
  proof (intro allI impI)
    fix x assume "findExisting applications s j = Some x"
    from first_row_Some [OF this [unfolded f]] obtain a where
      a: "a \<in> set applications" "?P a" "x = formatApplication a"
      by auto
    from a(2,3) have "x = [(''id'', get a ''id''),
                    (''jobSeekerUserId'', get a ''job_seeker_user_id''),
                    (''jobSeekerName'', get a ''job_seeker_name''),
                    (''jobSeekerEmail'', get a ''job_seeker_email''),
                    (''jobSeekerPhone'', get a ''job_seeker_phone''),
                    (''jobSeekerAddress'', get a ''job_seeker_address''),
                    (''resumePublicId'', get a ''resume_public_id''),
                    (''resumeUrl'', get a ''resume_url''),
                    (''coverLetter'', get a ''cover_letter''),
                    (''jobSeekerRole'', get a ''job_seeker_role''),
                    (''employerUserId'', get a ''employer_user_id''),
                    (''employerRole'', get a ''employer_role''),
                    (''jobId'', get a ''job_id''),
                    (''jobTitle'', get a ''job_title''),
                    (''deletedByJobSeeker'', Bool False),
                    (''deletedByEmployer'', Bool False),
                    (''createdAt'', get a ''created_at''),
                    (''updatedAt'', get a ''updated_at'')]"
      by (simp add: formatApplication_def)
    with a(1,2) show "\<exists>a\<in>set applications.
            sql_eq (get a ''job_seeker_user_id'') s \<and> sql_eq (get a ''job_id'') j
            \<and> get a ''deleted_by_job_seeker'' = Bool False
            \<and> get a ''deleted_by_employer'' = Bool False
            \<and> x = [(''id'', get a ''id''),
                    (''jobSeekerUserId'', get a ''job_seeker_user_id''),
                    (''jobSeekerName'', get a ''job_seeker_name''),
                    (''jobSeekerEmail'', get a ''job_seeker_email''),
                    (''jobSeekerPhone'', get a ''job_seeker_phone''),
                    (''jobSeekerAddress'', get a ''job_seeker_address''),
                    (''resumePublicId'', get a ''resume_public_id''),
                    (''resumeUrl'', get a ''resume_url''),
                    (''coverLetter'', get a ''cover_letter''),
                    (''jobSeekerRole'', get a ''job_seeker_role''),
                    (''employerUserId'', get a ''employer_user_id''),
                    (''employerRole'', get a ''employer_role''),
                    (''jobId'', get a ''job_id''),
                    (''jobTitle'', get a ''job_title''),
                    (''deletedByJobSeeker'', Bool False),
                    (''deletedByEmployer'', Bool False),
                    (''createdAt'', get a ''created_at''),
                    (''updatedAt'', get a ''updated_at'')]"
      by blast
  qed
  have C: "\<forall>a rest. filter ?P applications = a # rest
         \<longrightarrow> findExisting applications s j = Some (formatApplication a)"
    unfolding f by (simp add: first_row_def)
  show ?thesis by (rule conjI [OF A conjI [OF B C]])
qed

theorem findExisting_active_only_witness:
  "map_option (\<lambda>x. [get x ''id'', get x ''jobSeekerUserId'', get x ''jobId'', get x ''jobTitle'',
                     get x ''deletedByJobSeeker'', get x ''deletedByEmployer''])
     (findExisting [app_row ''a1'' ''s1'' ''j1'' True False, app_row ''a2'' ''s1'' ''j1'' False False]
        (Str ''s1'') (Str ''j1''))
     = Some [Str ''a2'', Str ''s1'', Str ''j1'', Str ''Clerk'', Bool False, Bool False]
   \<and> findExisting [app_row ''a1'' ''s1'' ''j1'' True False, app_row ''a3'' ''s1'' ''j1'' False True]
      (Str ''s1'') (Str ''j1'') = None"
proof -
  let ?T = "[app_row ''a1'' ''s1'' ''j1'' True False, app_row ''a2'' ''s1'' ''j1'' False False]"
  let ?U = "[app_row ''a1'' ''s1'' ''j1'' True False, app_row ''a3'' ''s1'' ''j1'' False True]"
  have e: "filter (\<lambda>a. sql_eq (get a ''job_seeker_user_id'') (Str ''s1'')
                        \<and> sql_eq (get a ''job_id'') (Str ''j1'')
                        \<and> get a ''deleted_by_job_seeker'' = Bool False
                        \<and> get a ''deleted_by_employer'' = Bool False) ?T
      = app_row ''a2'' ''s1'' ''j1'' False False # []"
    by code_simp
  from findExisting_active_only [of ?T "Str ''s1''" "Str ''j1''"] e
  have "findExisting ?T (Str ''s1'') (Str ''j1'')
      = Some (formatApplication (app_row ''a2'' ''s1'' ''j1'' False False))"
    by blast
  moreover have "[get (formatApplication (app_row ''a2'' ''s1'' ''j1'' False False)) ''id'',
       get (formatApplication (app_row ''a2'' ''s1'' ''j1'' False False)) ''jobSeekerUserId'',
       get (formatApplication (app_row ''a2'' ''s1'' ''j1'' False False)) ''jobId'',
       get (formatApplication (app_row ''a2'' ''s1'' ''j1'' False False)) ''jobTitle'',
       get (formatApplication (app_row ''a2'' ''s1'' ''j1'' False False)) ''deletedByJobSeeker'',
       get (formatApplication (app_row ''a2'' ''s1'' ''j1'' False False)) ''deletedByEmployer'']
      = [Str ''a2'', Str ''s1'', Str ''j1'', Str ''Clerk'', Bool False, Bool False]"
    by code_simp
  ultimately have s: "map_option (\<lambda>x. [get x ''id'', get x ''jobSeekerUserId'', get x ''jobId'',
                     get x ''jobTitle'', get x ''deletedByJobSeeker'', get x ''deletedByEmployer''])
     (findExisting ?T (Str ''s1'') (Str ''j1''))
     = Some [Str ''a2'', Str ''s1'', Str ''j1'', Str ''Clerk'', Bool False, Bool False]"
    by simp
  have n: "\<not> (\<exists>a\<in>set ?U.
            sql_eq (get a ''job_seeker_user_id'') (Str ''s1'') \<and> sql_eq (get a ''job_id'') (Str ''j1'')
            \<and> get a ''deleted_by_job_seeker'' = Bool False
            \<and> get a ''deleted_by_employer'' = Bool False)"
    by code_simp
  from findExisting_active_only [of ?U "Str ''s1''" "Str ''j1''"] n
  have "findExisting ?U (Str ''s1'') (Str ''j1'') = None"
    by blast
  with s show ?thesis by blast
qed

lemma update_where_length: "length (fst (update_where tbl sets wh)) = length tbl"
  by (simp add: update_where_def)

lemma update_where_nth:
  "i < length tbl \<Longrightarrow>
     fst (update_where tbl sets wh) ! i = (if wh (tbl ! i) then assign sets (tbl ! i) else tbl ! i)"
  by (simp add: update_where_def)

lemma update_where_none:
  "\<not> (\<exists>r\<in>set tbl. wh r) \<Longrightarrow> update_where tbl sets wh = (tbl, [])"
  by (auto simp: update_where_def filter_empty_conv intro: map_idI)

lemma get_assign2:
  "get (assign [(c, v), (d, w)] r) k = (if k = d then w else if k = c then v else get r k)"
  by (simp add: assign_def get_set_col)

text \<open>
  Claim C10. \<open>deleteByJobSeeker\<close> keeps the number of rows; a row whose id and job seeker
  both match gets \<open>deleted_by_job_seeker\<close> true and keeps every other column except
  \<open>updated_at\<close>; every other row is left as it is; when no row matches, the table is
  unchanged and the result is absent. \<open>deleteByEmployer\<close> does the same with the
  employer's id and flag.
\<close>

theorem soft_delete_frame:
  "length (fst (deleteByJobSeeker applications now a u)) = length applications
   \<and> length (fst (deleteByEmployer applications now a u)) = length applications
   \<and> (\<forall>i<length applications.
        (if sql_eq (get (applications ! i) ''id'') a
            \<and> sql_eq (get (applications ! i) ''job_seeker_user_id'') u
         then get (fst (deleteByJobSeeker applications now a u) ! i) ''deleted_by_job_seeker'' = Bool True
              \<and> (\<forall>c. c \<noteq> ''deleted_by_job_seeker'' \<and> c \<noteq> ''updated_at'' \<longrightarrow>
                     get (fst (deleteByJobSeeker applications now a u) ! i) c = get (applications ! i) c)
         else fst (deleteByJobSeeker applications now a u) ! i = applications ! i)
        \<and> (if sql_eq (get (applications ! i) ''id'') a
            \<and> sql_eq (get (applications ! i) ''employer_user_id'') u
         then get (fst (deleteByEmployer applications now a u) ! i) ''deleted_by_employer'' = Bool True
              \<and> (\<forall>c. c \<noteq> ''deleted_by_employer'' \<and> c \<noteq> ''updated_at'' \<longrightarrow>
                     get (fst (deleteByEmployer applications now a u) ! i) c = get (applications ! i) c)
         else fst (deleteByEmployer applications now a u) ! i = applications ! i))
   \<and> (\<not> (\<exists>r\<in>set applications. sql_eq (get r ''id'') a \<and> sql_eq (get r ''job_seeker_user_id'') u)
        \<longrightarrow> deleteByJobSeeker applications now a u = (applications, None))
   \<and> (\<not> (\<exists>r\<in>set applications. sql_eq (get r ''id'') a \<and> sql_eq (get r ''employer_user_id'') u)
        \<longrightarrow> deleteByEmployer applications now a u = (applications, None))"
proof -
  have js: "fst (deleteByJobSeeker applications now a u) =
      fst (update_where applications [(''deleted_by_job_seeker'', Bool True), (''updated_at'', Num now)]
        (\<lambda>r. sql_eq (get r ''id'') a \<and> sql_eq (get r ''job_seeker_user_id'') u))"
    by (simp add: deleteByJobSeeker_def split: prod.splits)
  have em: "fst (deleteByEmployer applications now a u) =
      fst (update_where applications [(''deleted_by_employer'', Bool True), (''updated_at'', Num now)]
        (\<lambda>r. sql_eq (get r ''id'') a \<and> sql_eq (get r ''employer_user_id'') u))"
    by (simp add: deleteByEmployer_def split: prod.splits)
  have n1: "\<not> (\<exists>r\<in>set applications. sql_eq (get r ''id'') a \<and> sql_eq (get r ''job_seeker_user_id'') u)
        \<longrightarrow> deleteByJobSeeker applications now a u = (applications, None)"
    using update_where_none [of applications
        "\<lambda>r. sql_eq (get r ''id'') a \<and> sql_eq (get r ''job_seeker_user_id'') u"]
    by (simp add: deleteByJobSeeker_def first_row_def)
  have n2: "\<not> (\<exists>r\<in>set applications. sql_eq (get r ''id'') a \<and> sql_eq (get r ''employer_user_id'') u)
        \<longrightarrow> deleteByEmployer applications now a u = (applications, None)"
    using update_where_none [of applications
        "\<lambda>r. sql_eq (get r ''id'') a \<and> sql_eq (get r ''employer_user_id'') u"]
    by (simp add: deleteByEmployer_def first_row_def)
  show ?thesis
    unfolding js em
    using n1 n2 by (simp add: update_where_length update_where_nth get_assign2)
qed

theorem soft_delete_frame_witness:
  "get (fst (deleteByJobSeeker example_applications 2000 (Str ''a1'') (Str ''s1'')) ! 0)
       ''deleted_by_job_seeker'' = Bool True
   \<and> get (fst (deleteByJobSeeker example_applications 2000 (Str ''a1'') (Str ''s1'')) ! 0)
       ''deleted_by_employer'' = Bool False
   \<and> fst (deleteByJobSeeker example_applications 2000 (Str ''a1'') (Str ''s1'')) ! 1
       = example_applications ! 1
   \<and> get (fst (deleteByEmployer example_applications 2000 (Str ''a1'') (Str ''e1'')) ! 0)
       ''deleted_by_employer'' = Bool True
   \<and> deleteByJobSeeker example_applications 2000 (Str ''a1'') (Str ''s2'')
       = (example_applications, None)
   \<and> deleteByEmployer example_applications 2000 (Str ''a1'') (Str ''s1'')
       = (example_applications, None)"
proof -
  have z: "0 < length example_applications" "1 < length example_applications"
    by code_simp+
  have m: "sql_eq (get (example_applications ! 0) ''id'') (Str ''a1'')"
    "sql_eq (get (example_applications ! 0) ''job_seeker_user_id'') (Str ''s1'')"
    "sql_eq (get (example_applications ! 0) ''employer_user_id'') (Str ''e1'')"
    "\<not> sql_eq (get (example_applications ! 1) ''id'') (Str ''a1'')"
    "get (example_applications ! 0) ''deleted_by_employer'' = Bool False"
    by code_simp+
  have n: "\<not> (\<exists>r\<in>set example_applications.
      sql_eq (get r ''id'') (Str ''a1'') \<and> sql_eq (get r ''job_seeker_user_id'') (Str ''s2''))"
    "\<not> (\<exists>r\<in>set example_applications.
      sql_eq (get r ''id'') (Str ''a1'') \<and> sql_eq (get r ''employer_user_id'') (Str ''s1''))"
    by code_simp+
  note t1 = soft_delete_frame [of example_applications 2000 "Str ''a1''" "Str ''s1''"]
  note t2 = soft_delete_frame [of example_applications 2000 "Str ''a1''" "Str ''s2''"]
  note t3 = soft_delete_frame [of example_applications 2000 "Str ''a1''" "Str ''e1''"]
  note a1 = t1 [THEN conjunct2, THEN conjunct2, THEN conjunct1, rule_format]
  note a3 = t3 [THEN conjunct2, THEN conjunct2, THEN conjunct1, rule_format]
  from a1 [OF z(1)] m have "get (fst (deleteByJobSeeker example_applications 2000 (Str ''a1'') (Str ''s1'')) ! 0)
       ''deleted_by_job_seeker'' = Bool True
   \<and> get (fst (deleteByJobSeeker example_applications 2000 (Str ''a1'') (Str ''s1'')) ! 0)
       ''deleted_by_employer'' = Bool False"
    by simp
  moreover from a1 [OF z(2)] m
  have "fst (deleteByJobSeeker example_applications 2000 (Str ''a1'') (Str ''s1'')) ! 1
       = example_applications ! 1"
    by simp
  moreover from a3 [OF z(1)] m
  have "get (fst (deleteByEmployer example_applications 2000 (Str ''a1'') (Str ''e1'')) ! 0)
       ''deleted_by_employer'' = Bool True"
    by simp
  moreover from t2 n(1)
  have "deleteByJobSeeker example_applications 2000 (Str ''a1'') (Str ''s2'')
       = (example_applications, None)"
    by blast
  moreover from t1 n(2)
  have "deleteByEmployer example_applications 2000 (Str ''a1'') (Str ''s1'')
       = (example_applications, None)"
    by blast
  ultimately show ?thesis by blast
qed

lemma set_order_by_created_at_desc [simp]: "set (order_by_created_at_desc rows) = set rows"
  by (auto simp: order_by_created_at_desc_def)

lemma length_order_by_created_at_desc [simp]:
  "length (order_by_created_at_desc rows) = length rows"
  using sum_length_filter_compl [of "\<lambda>r. created_at r = None" rows]
  by (simp add: order_by_created_at_desc_def)

text \<open>
  Claim C8. For a niche tag \<open>t\<close> the lookup returns the users whose role is
  \<^verbatim>\<open>Job Seeker\<close> and one of whose three niches is the string \<open>t\<close> itself, once
  each, and nobody else.
\<close>

theorem findByJobNiche_exact:
  "set (findByJobNiche users (Str t)) =
     formatUserResponse ` {u \<in> set users. get u ''role'' = Str ''Job Seeker''
        \<and> (get u ''first_niche'' = Str t \<or> get u ''second_niche'' = Str t
           \<or> get u ''third_niche'' = Str t)}
   \<and> length (findByJobNiche users (Str t)) =
     length (filter (\<lambda>u. get u ''role'' = Str ''Job Seeker''
        \<and> (get u ''first_niche'' = Str t \<or> get u ''second_niche'' = Str t
           \<or> get u ''third_niche'' = Str t)) users)"
proof -
  have e: "(\<lambda>u. sql_eq (get u ''role'') (Str ''Job Seeker'')
                       \<and> (sql_eq (get u ''first_niche'') (Str t)
                          \<or> sql_eq (get u ''second_niche'') (Str t)
                          \<or> sql_eq (get u ''third_niche'') (Str t)))
      = (\<lambda>u. get u ''role'' = Str ''Job Seeker''
        \<and> (get u ''first_niche'' = Str t \<or> get u ''second_niche'' = Str t
           \<or> get u ''third_niche'' = Str t))"
    by (auto simp: sql_eq_def fun_eq_iff)
  show ?thesis
    unfolding findByJobNiche_def e by auto
qed

text \<open>
  Claim C7. The response formatter's object has no \<open>password\<close> property, the
  authentication formatter's object has the stored one, the two agree on every other
  property, and every user the niche lookup returns went through the response formatter.
\<close>

theorem user_formatters_password:
  "map_of (formatUserResponse user) ''password'' = None
   \<and> map_of (formatUser user) ''password'' = Some (get user ''password'')
   \<and> (\<forall>k. k \<noteq> ''password'' \<longrightarrow>
         map_of (formatUserResponse user) k = map_of (formatUser user) k)
   \<and> (\<forall>x\<in>set (findByJobNiche users t).
         map_of x ''password'' = None \<and> (\<exists>u\<in>set users. x = formatUserResponse u))"
proof -
  have d: "map_of (delete_prop k ob) k' = (if k' = k then None else map_of ob k')" for k k' ob
    by (induction ob) (auto simp: delete_prop_def)
  have a: "map_of (formatUserResponse user) ''password'' = None" for user
    by (simp add: formatUserResponse_def d)
  have b: "map_of (formatUser user) ''password'' = Some (get user ''password'')"
    by (simp add: formatUser_def)
  have c: "\<forall>k. k \<noteq> ''password'' \<longrightarrow>
         map_of (formatUserResponse user) k = map_of (formatUser user) k"
    by (simp add: formatUserResponse_def d)
  have e: "\<forall>x\<in>set (findByJobNiche users t).
         map_of x ''password'' = None \<and> (\<exists>u\<in>set users. x = formatUserResponse u)"
    using a by (auto simp: findByJobNiche_def)
  from a b c e show ?thesis by blast
qed

theorem findByJobNiche_exact_witness:
  "length (findByJobNiche example_users (Str ''IT'')) = 2
   \<and> set (findByJobNiche example_users (Str ''IT''))
       = {formatUserResponse (example_users ! 0), formatUserResponse (example_users ! 3)}"
proof -
  have f: "filter (\<lambda>u. get u ''role'' = Str ''Job Seeker''
        \<and> (get u ''first_niche'' = Str ''IT'' \<or> get u ''second_niche'' = Str ''IT''
           \<or> get u ''third_niche'' = Str ''IT'')) example_users
      = [example_users ! 0, example_users ! 3]"
    by code_simp
  have "{u \<in> set example_users. get u ''role'' = Str ''Job Seeker''
        \<and> (get u ''first_niche'' = Str ''IT'' \<or> get u ''second_niche'' = Str ''IT''
           \<or> get u ''third_niche'' = Str ''IT'')} = set [example_users ! 0, example_users ! 3]"
    unfolding f [symmetric] by simp
  with findByJobNiche_exact [of example_users "''IT''"] f show ?thesis
    by simp
qed

theorem user_formatters_password_witness:
  "map_of (formatUserResponse (example_users ! 0)) ''password'' = None
   \<and> map_of (formatUser (example_users ! 0)) ''password'' = Some (Str ''$2b$10$hash-of-u1'')
   \<and> map_of (formatUserResponse (example_users ! 0)) ''email'' = Some (Str ''u1@example.com'')
   \<and> length (findByJobNiche example_users (Str ''IT'')) = 2
   \<and> map (\<lambda>x. map_of x ''password'') (findByJobNiche example_users (Str ''IT'')) = [None, None]"
proof -
  have p: "get (example_users ! 0) ''password'' = Str ''$2b$10$hash-of-u1''"
    "map_of (formatUser (example_users ! 0)) ''email'' = Some (Str ''u1@example.com'')"
    "length (findByJobNiche example_users (Str ''IT'')) = 2"
    by code_simp+
  have k: "''email'' \<noteq> ''password''" by simp
  note t = user_formatters_password [of "example_users ! 0" example_users "Str ''IT''"]
  from t have "\<forall>x\<in>set (findByJobNiche example_users (Str ''IT'')). map_of x ''password'' = None"
    by blast
  then have "map (\<lambda>x. map_of x ''password'') (findByJobNiche example_users (Str ''IT''))
      = replicate (length (findByJobNiche example_users (Str ''IT''))) None"
    by (simp add: map_replicate_const [symmetric] cong: map_cong)
  with t p k show ?thesis by (auto simp: numeral_2_eq_2)
qed

text \<open>
  Claim C5. On an application whose phone number is invalid (and whose email and cover
  letter are invalid too) \<open>validateApplicationData\<close> returns no list: the exception of
  the strict phone parser leaves the function. \<open>validateUserData\<close> catches the same
  exception and reports every violated rule.
\<close>

theorem validateApplicationData_throws:
  "validateApplicationData bad_application
     = Inl (Error ''Invalid Indian phone number. It must be 10 digits and start with 6, 7, 8, or 9.'')
   \<and> validateUserData bad_user
     = [''Name must be between 3 and 30 characters'',
        ''Please provide a valid email'',
        ''Invalid Indian phone number. It must be 10 digits and start with 6, 7, 8, or 9.'',
        ''Password must be between 8 and 32 characters'',
        ''Job Seekers must provide three job niches'']"
  by code_simp

lemma validateJobData_collects:
  "validateJobData [(''title'', Str '' ''), (''jobType'', Str ''Gig''), (''location'', Str ''Pune'')]
     = Inr [''Job title is required'',
            ''Job type must be either \"Full-time\" or \"Part-time\"'',
            ''Company name is required'',
            ''Job responsibilities are required'',
            ''Job qualifications are required'',
            ''Salary information is required'',
            ''Job niche is required'',
            ''Posted by user ID is required'']"
  by code_simp

theorem validateApplicationData_throws_witness:
  "isl (validateApplicationData bad_application) \<and> length (validateUserData bad_user) = 5"
  using validateApplicationData_throws by simp

lemma get_assign:
  "get (assign sets r) c = (case map_of (rev sets) c of Some v \<Rightarrow> v | None \<Rightarrow> get r c)"
proof (induction sets arbitrary: r rule: rev_induct)
  case Nil
  then show ?case by (simp add: assign_def)
next
  case (snoc x xs)
  have "assign (xs @ [x]) r = set_col (fst x) (snd x) (assign xs r)"
    by (simp add: assign_def)
  with snoc show ?case
    by (cases x) (simp add: get_set_col)
qed

lemma get_assign_in:
  assumes "distinct (map fst sets)" "(c, v) \<in> set sets"
  shows "get (assign sets r) c = v"
proof -
  from assms have "map_of (rev sets) c = Some v"
    by (simp add: distinct_rev rev_map [symmetric])
  then show ?thesis by (simp add: get_assign)
qed

lemma get_assign_out:
  assumes "c \<notin> fst ` set sets"
  shows "get (assign sets r) c = get r c"
proof -
  from assms have "map_of (rev sets) c = None"
    by (simp add: map_of_eq_None_iff)
  then show ?thesis by (simp add: get_assign)
qed

lemma update_fields_none:
  "\<forall>p\<in>set payload. snd p = Undefined \<Longrightarrow> update_fields snake sv payload = Inr []"
  by (induction payload) auto

lemma update_fields_some:
  "update_fields snake sv payload = Inr fs \<Longrightarrow> (k, v) \<in> set payload \<Longrightarrow> v \<noteq> Undefined \<Longrightarrow>
     \<exists>w. sv k v = Inr w \<and> (snake k, w) \<in> set fs"
proof (induction payload arbitrary: fs)
  case Nil
  then show ?case by simp
next
  case (Cons p payload)
  obtain k' v' where p: "p = (k', v')" by (cases p)
  show ?case
  proof (cases "v' = Undefined")
    case True
    with Cons p show ?thesis by auto
  next
    case False
    with Cons.prems(1) p obtain w' rest where
      w: "sv k' v' = Inr w'" and r: "update_fields snake sv payload = Inr rest"
      and f: "fs = (snake k', w') # rest"
      by (auto split: sum.splits)
    show ?thesis
    proof (cases "(k, v) = (k', v')")
      case True
      with w f show ?thesis by auto
    next
      case False
      with Cons.prems(2) p have "(k, v) \<in> set payload" by auto
      from Cons.IH [OF r this Cons.prems(3)] f show ?thesis by auto
    qed
  qed
qed

lemma update_fields_map_fst:
  "update_fields snake sv payload = Inr fs \<Longrightarrow>
     map fst fs = map (\<lambda>p. snake (fst p)) (filter (\<lambda>p. snd p \<noteq> Undefined) payload)"
proof (induction payload arbitrary: fs)
  case Nil
  then show ?case by simp
next
  case (Cons p payload)
  obtain k' v' where p: "p = (k', v')" by (cases p)
  show ?case
  proof (cases "v' = Undefined")
    case True
    with Cons p show ?thesis by auto
  next
    case False
    with Cons.prems(1) p obtain w' rest where
      r: "update_fields snake sv payload = Inr rest"
      and f: "fs = (snake k', w') # rest"
      by (auto split: sum.splits)
    from Cons.IH [OF r] f p False show ?thesis by simp
  qed
qed

lemma update_fields_cols:
  assumes "update_fields snake sv payload = Inr fs"
  shows "fst ` set fs = snake ` fst ` {p \<in> set payload. snd p \<noteq> Undefined}"
proof -
  have "fst ` set fs = set (map fst fs)" by simp
  also have "\<dots> = set (map (\<lambda>p. snake (fst p)) (filter (\<lambda>p. snd p \<noteq> Undefined) payload))"
    by (simp only: update_fields_map_fst [OF assms])
  also have "\<dots> = snake ` fst ` {p \<in> set payload. snd p \<noteq> Undefined}"
    by (simp add: image_image)
  finally show ?thesis .
qed

lemma stored_Null: "map_of cols c = Some tn \<Longrightarrow> stored cols reads c Null = Some Null"
  by (cases tn) (simp add: stored_def bind_value_def)

lemma bind_all_some:
  "bind_all cols reads ps = Some bound \<Longrightarrow> (c, v) \<in> set ps \<Longrightarrow>
     \<exists>w. stored cols reads c v = Some w \<and> (c, w) \<in> set bound"
proof (induction ps arbitrary: bound)
  case Nil
  then show ?case by simp
next
  case (Cons p ps)
  obtain c' v' where p: "p = (c', v')" by (cases p)
  from Cons.prems(1) p obtain w' rest where
    w: "stored cols reads c' v' = Some w'" and r: "bind_all cols reads ps = Some rest"
    and b: "bound = (c', w') # rest"
    by (auto split: option.splits)
  show ?case
  proof (cases "(c, v) = (c', v')")
    case True
    with w b show ?thesis by auto
  next
    case False
    with Cons.prems(2) p have "(c, v) \<in> set ps" by auto
    from Cons.IH [OF r this] b show ?thesis by auto
  qed
qed

lemma bind_all_map_fst: "bind_all cols reads ps = Some bound \<Longrightarrow> map fst bound = map fst ps"
proof (induction ps arbitrary: bound)
  case Nil
  then show ?case by simp
next
  case (Cons p ps)
  obtain c' v' where p: "p = (c', v')" by (cases p)
  from Cons.prems p obtain w' rest where
    r: "bind_all cols reads ps = Some rest" and b: "bound = (c', w') # rest"
    by (auto split: option.splits)
  from Cons.IH [OF r] b p show ?case by simp
qed

lemma update_by_id_empty:
  "\<forall>p\<in>set payload. snd p = Undefined \<Longrightarrow>
     update_by_id cols reads snake sv tbl now ident payload
       = (tbl, Inl (Error ''No fields to update''))"
  using update_fields_none [of payload snake sv] by (simp add: update_by_id_def)

lemma update_by_id_fail:
  "isl (snd (update_by_id cols reads snake sv tbl now ident payload)) \<Longrightarrow>
     fst (update_by_id cols reads snake sv tbl now ident payload) = tbl"
  by (auto simp: update_by_id_def split: sum.splits if_splits prod.splits)

lemma update_by_id_ok:
  assumes "snd (update_by_id cols reads snake sv tbl now ident payload) = Inr res"
  shows "length (fst (update_by_id cols reads snake sv tbl now ident payload)) = length tbl
    \<and> (\<forall>i<length tbl.
          if sql_eq (get (tbl ! i) ''id'') ident
          then (\<forall>k v. (k, v) \<in> set payload \<and> v \<noteq> Undefined \<longrightarrow>
                  (\<exists>w. sv k v = Inr w
                     \<and> stored cols reads (snake k) w
                         = Some (get (fst (update_by_id cols reads snake sv tbl now ident payload) ! i)
                                   (snake k))))
               \<and> (\<forall>c. c \<notin> snake ` fst ` {p \<in> set payload. snd p \<noteq> Undefined}
                        \<and> c \<noteq> ''updated_at'' \<longrightarrow>
                     get (fst (update_by_id cols reads snake sv tbl now ident payload) ! i) c
                       = get (tbl ! i) c)
          else fst (update_by_id cols reads snake sv tbl now ident payload) ! i = tbl ! i)"
proof -
  let ?wh = "\<lambda>r. sql_eq (get r ''id'') ident"
  let ?fixed = "[(''updated_at'', Num now)]"
  from assms obtain fs where
    f: "update_fields snake sv payload = Inr fs"
    by (auto simp: update_by_id_def split: sum.splits)
  from assms f have ne: "fs \<noteq> []"
    by (auto simp: update_by_id_def)
  from assms f ne obtain tbl' rows where
    u: "sql_update cols reads tbl fs ?fixed ?wh = Inr (tbl', rows)"
    by (auto simp: update_by_id_def split: sum.splits)
  from u obtain bound where
    d: "distinct (map fst (fs @ ?fixed))"
    and b: "bind_all cols reads fs = Some bound"
    and t: "tbl' = map (\<lambda>r. if ?wh r then assign (bound @ ?fixed) r else r) tbl"
    by (auto simp: sql_update_def split: if_splits option.splits)
  from d bind_all_map_fst [OF b] have d': "distinct (map fst (bound @ ?fixed))"
    by simp
  from f u ne have r: "fst (update_by_id cols reads snake sv tbl now ident payload) = tbl'"
    by (simp add: update_by_id_def)
  have a: "\<exists>w. sv k v = Inr w
      \<and> stored cols reads (snake k) w = Some (get (assign (bound @ ?fixed) x) (snake k))"
    if "(k, v) \<in> set payload" "v \<noteq> Undefined" for k v x
  proof -
    from update_fields_some [OF f that] obtain w where
      w: "sv k v = Inr w" "(snake k, w) \<in> set fs" by blast
    from bind_all_some [OF b w(2)] obtain w' where
      w': "stored cols reads (snake k) w = Some w'" "(snake k, w') \<in> set bound" by blast
    then have "(snake k, w') \<in> set (bound @ ?fixed)" by simp
    from get_assign_in [OF d' this] w w' show ?thesis by simp
  qed
  have c: "get (assign (bound @ ?fixed) x) c = get x c"
    if "c \<notin> snake ` fst ` {p \<in> set payload. snd p \<noteq> Undefined}" "c \<noteq> ''updated_at''" for c x
  proof -
    have "fst ` set bound = fst ` set fs"
      using bind_all_map_fst [OF b] by (metis set_map)
    with that update_fields_cols [OF f] have "c \<notin> fst ` set (bound @ ?fixed)" by auto
    then show ?thesis by (rule get_assign_out)
  qed
  show ?thesis
    unfolding r t using a c by simp
qed

lemma update_by_id_not_null:
  assumes p: "(k, Null) \<in> set payload"
    and s: "sv k Null = Inr Null"
    and n: "is_not_null cols (snake k)"
    and m: "\<exists>r\<in>set tbl. sql_eq (get r ''id'') ident"
  shows "isl (snd (update_by_id cols reads snake sv tbl now ident payload))"
proof (cases "update_fields snake sv payload")
  case (Inl e)
  then show ?thesis by (simp add: update_by_id_def)
next
  case (Inr fs)
  from update_fields_some [OF Inr p] s have k: "(snake k, Null) \<in> set fs" by auto
  then have ne: "fs \<noteq> []" by auto
  from n obtain tn where c: "map_of cols (snake k) = Some tn"
    by (auto simp: is_not_null_def split: option.splits)
  have "isl (sql_update cols reads tbl fs [(''updated_at'', Num now)]
               (\<lambda>r. sql_eq (get r ''id'') ident))"
  proof (cases "bind_all cols reads fs")
    case None
    then show ?thesis by (simp add: sql_update_def)
  next
    case (Some bound)
    from bind_all_some [OF Some k] stored_Null [OF c] have "(snake k, Null) \<in> set bound"
      by auto
    with n have "list_ex (\<lambda>cw. snd cw = Null \<and> is_not_null cols (fst cw)) bound"
      by (force simp: list_ex_iff)
    moreover from m have "list_ex (\<lambda>r. sql_eq (get r ''id'') ident) tbl"
      by (simp add: list_ex_iff)
    ultimately show ?thesis using Some by (simp add: sql_update_def)
  qed
  with Inr ne show ?thesis
    by (auto simp: update_by_id_def isl_def)
qed

lemma JobModel_updateById_fst:
  "fst (JobModel_updateById reads jobs now ident payload)
     = fst (update_by_id jobs_columns reads JobModel_convertToSnakeCase (\<lambda>key v. Inr v)
              jobs now ident payload)"
  by (simp add: JobModel_updateById_def split: prod.splits)

lemma JobModel_updateById_snd:
  "snd (JobModel_updateById reads jobs now ident payload)
     = map_sum id (map_option formatJob)
         (snd (update_by_id jobs_columns reads JobModel_convertToSnakeCase (\<lambda>key v. Inr v)
                 jobs now ident payload))"
  by (simp add: JobModel_updateById_def split: prod.splits)

lemma UserModel_updateById_fst:
  "fst (UserModel_updateById hash reads users now ident payload)
     = fst (update_by_id users_columns reads UserModel_convertToSnakeCase
             (\<lambda>key v. if key = ''password'' then hash v else Inr v) users now ident payload)"
  by (simp add: UserModel_updateById_def split: prod.splits)

lemma UserModel_updateById_snd:
  "snd (UserModel_updateById hash reads users now ident payload)
     = map_sum id (map_option formatUser)
         (snd (update_by_id users_columns reads UserModel_convertToSnakeCase
             (\<lambda>key v. if key = ''password'' then hash v else Inr v) users now ident payload))"
  by (simp add: UserModel_updateById_def split: prod.splits)

lemma map_sum_Inr_D: "map_sum f g x = Inr r \<Longrightarrow> \<exists>r'. x = Inr r'"
  by (cases x) auto

lemma isl_map_sum: "isl (map_sum f g x) = isl x"
  by (cases x) auto

text \<open>
  Claim C6 as stated fails where the store refuses the statement: \<open>title\<close> is
  \<^verbatim>\<open>NOT NULL\<close> in every schema of the repository, so the payload \<^verbatim>\<open>{title: null}\<close> on
  an existing posting makes \<open>updateById\<close> fail with the store's error; the null is not
  applied and the row keeps its title.
\<close>

theorem updateById_null_rejected_counterexample:
  "JobModel_updateById example_reads example_jobs example_now (Str ''j1'') [(''title'', Null)]
     = (example_jobs, Inl (Error ''null value violates not-null constraint''))
   \<and> get (fst (JobModel_updateById example_reads example_jobs example_now (Str ''j1'')
               [(''title'', Null)]) ! 0) ''title'' = Str ''Clerk j1''"
  by code_simp

text \<open>
  Claim C6, as the code has it. \<open>updateById\<close> of the job and of the user model. A payload
  in which no value is present fails with \<^verbatim>\<open>No fields to update\<close> and leaves the table as
  it is. When the call succeeds, in every row with the given id each present field holds
  what the store keeps for the value of the payload (\<^verbatim>\<open>NULL\<close> for \<^verbatim>\<open>null\<close>; for the
  user's password, for its hash), every column no present field names keeps its value
  (\<open>updated_at\<close> apart), and every other row is unchanged. A \<^verbatim>\<open>null\<close> for a
  \<^verbatim>\<open>NOT NULL\<close> column of an existing row makes the call fail and changes no row (stated
  for the user's fields other than the password, which goes through the hash first).
\<close>

theorem updateById_partial_update:
  "((\<forall>p\<in>set payload. snd p = Undefined) \<longrightarrow>
      JobModel_updateById reads jobs now ident payload
        = (jobs, Inl (Error ''No fields to update''))
      \<and> UserModel_updateById hash reads users now ident payload
          = (users, Inl (Error ''No fields to update'')))
   \<and> (\<forall>res. snd (JobModel_updateById reads jobs now ident payload) = Inr res \<longrightarrow>
         length (fst (JobModel_updateById reads jobs now ident payload)) = length jobs
         \<and> (\<forall>i<length jobs.
              if sql_eq (get (jobs ! i) ''id'') ident
              then (\<forall>k v. (k, v) \<in> set payload \<and> v \<noteq> Undefined \<longrightarrow>
                      stored jobs_columns reads (JobModel_convertToSnakeCase k) v
                        = Some (get (fst (JobModel_updateById reads jobs now ident payload) ! i)
                                  (JobModel_convertToSnakeCase k))
                      \<and> (v = Null \<longrightarrow>
                           get (fst (JobModel_updateById reads jobs now ident payload) ! i)
                             (JobModel_convertToSnakeCase k) = Null))
                   \<and> (\<forall>c. c \<notin> JobModel_convertToSnakeCase ` fst ` {p \<in> set payload. snd p \<noteq> Undefined}
                            \<and> c \<noteq> ''updated_at'' \<longrightarrow>
                         get (fst (JobModel_updateById reads jobs now ident payload) ! i) c
                           = get (jobs ! i) c)
              else fst (JobModel_updateById reads jobs now ident payload) ! i = jobs ! i))
   \<and> (\<forall>res. snd (UserModel_updateById hash reads users now ident payload) = Inr res \<longrightarrow>
         length (fst (UserModel_updateById hash reads users now ident payload)) = length users
         \<and> (\<forall>i<length users.
              if sql_eq (get (users ! i) ''id'') ident
              then (\<forall>k v. (k, v) \<in> set payload \<and> v \<noteq> Undefined \<longrightarrow>
                      (\<exists>w. (if k = ''password'' then hash v else Inr v) = Inr w
                         \<and> stored users_columns reads (UserModel_convertToSnakeCase k) w
                             = Some (get (fst (UserModel_updateById hash reads users now ident payload) ! i)
                                       (UserModel_convertToSnakeCase k))))
                   \<and> (\<forall>c. c \<notin> UserModel_convertToSnakeCase ` fst ` {p \<in> set payload. snd p \<noteq> Undefined}
                            \<and> c \<noteq> ''updated_at'' \<longrightarrow>
                         get (fst (UserModel_updateById hash reads users now ident payload) ! i) c
                           = get (users ! i) c)
              else fst (UserModel_updateById hash reads users now ident payload) ! i = users ! i))
   \<and> (\<forall>k. (k, Null) \<in> set payload
           \<and> is_not_null jobs_columns (JobModel_convertToSnakeCase k)
           \<and> (\<exists>r\<in>set jobs. sql_eq (get r ''id'') ident) \<longrightarrow>
         isl (snd (JobModel_updateById reads jobs now ident payload))
         \<and> fst (JobModel_updateById reads jobs now ident payload) = jobs)
   \<and> (\<forall>k. (k, Null) \<in> set payload \<and> k \<noteq> ''password''
           \<and> is_not_null users_columns (UserModel_convertToSnakeCase k)
           \<and> (\<exists>r\<in>set users. sql_eq (get r ''id'') ident) \<longrightarrow>
         isl (snd (UserModel_updateById hash reads users now ident payload))
         \<and> fst (UserModel_updateById hash reads users now ident payload) = users)"
proof -
  let ?J = "update_by_id jobs_columns reads JobModel_convertToSnakeCase (\<lambda>key v. Inr v)
              jobs now ident payload"
  let ?U = "update_by_id users_columns reads UserModel_convertToSnakeCase
             (\<lambda>key v. if key = ''password'' then hash v else Inr v) users now ident payload"
  have A: "(\<forall>p\<in>set payload. snd p = Undefined) \<longrightarrow>
      JobModel_updateById reads jobs now ident payload
        = (jobs, Inl (Error ''No fields to update''))
      \<and> UserModel_updateById hash reads users now ident payload
          = (users, Inl (Error ''No fields to update''))"
    by (simp add: JobModel_updateById_def UserModel_updateById_def update_by_id_empty)
  have D: "\<forall>res. snd (JobModel_updateById reads jobs now ident payload) = Inr res \<longrightarrow>
         length (fst (JobModel_updateById reads jobs now ident payload)) = length jobs
         \<and> (\<forall>i<length jobs.
              if sql_eq (get (jobs ! i) ''id'') ident
              then (\<forall>k v. (k, v) \<in> set payload \<and> v \<noteq> Undefined \<longrightarrow>
                      stored jobs_columns reads (JobModel_convertToSnakeCase k) v
                        = Some (get (fst (JobModel_updateById reads jobs now ident payload) ! i)
                                  (JobModel_convertToSnakeCase k))
                      \<and> (v = Null \<longrightarrow>
                           get (fst (JobModel_updateById reads jobs now ident payload) ! i)
                             (JobModel_convertToSnakeCase k) = Null))
                   \<and> (\<forall>c. c \<notin> JobModel_convertToSnakeCase ` fst ` {p \<in> set payload. snd p \<noteq> Undefined}
                            \<and> c \<noteq> ''updated_at'' \<longrightarrow>
                         get (fst (JobModel_updateById reads jobs now ident payload) ! i) c
                           = get (jobs ! i) c)
              else fst (JobModel_updateById reads jobs now ident payload) ! i = jobs ! i)"
  proof (intro allI impI)
    fix res assume "snd (JobModel_updateById reads jobs now ident payload) = Inr res"
    then obtain r where r: "snd ?J = Inr r"
      unfolding JobModel_updateById_snd by (blast dest: map_sum_Inr_D)
    note ok = update_by_id_ok [OF r]
    have nul: "get (fst ?J ! i) c = Null"
      if "stored jobs_columns reads c Null = Some (get (fst ?J ! i) c)" for i c
    proof -
      from that obtain tn where "map_of jobs_columns c = Some tn"
        by (auto simp: stored_def split: option.splits)
      from stored_Null [OF this, of reads] that show ?thesis by simp
    qed
    have L: "length (fst ?J) = length jobs"
      using ok by blast
    have P: "stored jobs_columns reads (JobModel_convertToSnakeCase k) v
        = Some (get (fst ?J ! i) (JobModel_convertToSnakeCase k))"
      if "i < length jobs" "sql_eq (get (jobs ! i) ''id'') ident" "(k, v) \<in> set payload"
        "v \<noteq> Undefined" for i k v
      using ok that by auto
    have Q: "get (fst ?J ! i) c = get (jobs ! i) c"
      if "i < length jobs" "sql_eq (get (jobs ! i) ''id'') ident"
        "c \<notin> JobModel_convertToSnakeCase ` fst ` {p \<in> set payload. snd p \<noteq> Undefined}"
        "c \<noteq> ''updated_at''" for i c
      using ok that by auto
    have R: "fst ?J ! i = jobs ! i"
      if "i < length jobs" "\<not> sql_eq (get (jobs ! i) ''id'') ident" for i
      using ok that by auto
    show "length (fst (JobModel_updateById reads jobs now ident payload)) = length jobs
         \<and> (\<forall>i<length jobs.
              if sql_eq (get (jobs ! i) ''id'') ident
              then (\<forall>k v. (k, v) \<in> set payload \<and> v \<noteq> Undefined \<longrightarrow>
                      stored jobs_columns reads (JobModel_convertToSnakeCase k) v
                        = Some (get (fst (JobModel_updateById reads jobs now ident payload) ! i)
                                  (JobModel_convertToSnakeCase k))
                      \<and> (v = Null \<longrightarrow>
                           get (fst (JobModel_updateById reads jobs now ident payload) ! i)
                             (JobModel_convertToSnakeCase k) = Null))
                   \<and> (\<forall>c. c \<notin> JobModel_convertToSnakeCase ` fst ` {p \<in> set payload. snd p \<noteq> Undefined}
                            \<and> c \<noteq> ''updated_at'' \<longrightarrow>
                         get (fst (JobModel_updateById reads jobs now ident payload) ! i) c
                           = get (jobs ! i) c)
              else fst (JobModel_updateById reads jobs now ident payload) ! i = jobs ! i)"
      (is "?L \<and> (\<forall>i<length jobs. ?B i)")
    proof (intro conjI allI impI)
      show ?L unfolding JobModel_updateById_fst by (rule L)
    next
      fix i assume i: "i < length jobs"
      show "?B i"
      proof (cases "sql_eq (get (jobs ! i) ''id'') ident")
        case True
        have "\<forall>k v. (k, v) \<in> set payload \<and> v \<noteq> Undefined \<longrightarrow>
                stored jobs_columns reads (JobModel_convertToSnakeCase k) v
                  = Some (get (fst ?J ! i) (JobModel_convertToSnakeCase k))
                \<and> (v = Null \<longrightarrow> get (fst ?J ! i) (JobModel_convertToSnakeCase k) = Null)"
          using P [OF i True] nul by blast
        moreover have "\<forall>c. c \<notin> JobModel_convertToSnakeCase ` fst ` {p \<in> set payload. snd p \<noteq> Undefined}
                            \<and> c \<noteq> ''updated_at'' \<longrightarrow> get (fst ?J ! i) c = get (jobs ! i) c"
          using Q [OF i True] by blast
        ultimately show ?thesis
          unfolding JobModel_updateById_fst using True by (simp only: if_True)
      next
        case False
        with R [OF i] show ?thesis
          unfolding JobModel_updateById_fst by simp
      qed
    qed
  qed
  have E: "\<forall>res. snd (UserModel_updateById hash reads users now ident payload) = Inr res \<longrightarrow>
         length (fst (UserModel_updateById hash reads users now ident payload)) = length users
         \<and> (\<forall>i<length users.
              if sql_eq (get (users ! i) ''id'') ident
              then (\<forall>k v. (k, v) \<in> set payload \<and> v \<noteq> Undefined \<longrightarrow>
                      (\<exists>w. (if k = ''password'' then hash v else Inr v) = Inr w
                         \<and> stored users_columns reads (UserModel_convertToSnakeCase k) w
                             = Some (get (fst (UserModel_updateById hash reads users now ident payload) ! i)
                                       (UserModel_convertToSnakeCase k))))
                   \<and> (\<forall>c. c \<notin> UserModel_convertToSnakeCase ` fst ` {p \<in> set payload. snd p \<noteq> Undefined}
                            \<and> c \<noteq> ''updated_at'' \<longrightarrow>
                         get (fst (UserModel_updateById hash reads users now ident payload) ! i) c
                           = get (users ! i) c)
              else fst (UserModel_updateById hash reads users now ident payload) ! i = users ! i)"
  proof (intro allI impI)
    fix res assume "snd (UserModel_updateById hash reads users now ident payload) = Inr res"
    then obtain r where r: "snd ?U = Inr r"
      unfolding UserModel_updateById_snd by (blast dest: map_sum_Inr_D)
    from update_by_id_ok [OF r]
    show "length (fst (UserModel_updateById hash reads users now ident payload)) = length users
         \<and> (\<forall>i<length users.
              if sql_eq (get (users ! i) ''id'') ident
              then (\<forall>k v. (k, v) \<in> set payload \<and> v \<noteq> Undefined \<longrightarrow>
                      (\<exists>w. (if k = ''password'' then hash v else Inr v) = Inr w
                         \<and> stored users_columns reads (UserModel_convertToSnakeCase k) w
                             = Some (get (fst (UserModel_updateById hash reads users now ident payload) ! i)
                                       (UserModel_convertToSnakeCase k))))
                   \<and> (\<forall>c. c \<notin> UserModel_convertToSnakeCase ` fst ` {p \<in> set payload. snd p \<noteq> Undefined}
                            \<and> c \<noteq> ''updated_at'' \<longrightarrow>
                         get (fst (UserModel_updateById hash reads users now ident payload) ! i) c
                           = get (users ! i) c)
              else fst (UserModel_updateById hash reads users now ident payload) ! i = users ! i)"
      unfolding UserModel_updateById_fst by simp
  qed
  have F: "\<forall>k. (k, Null) \<in> set payload
           \<and> is_not_null jobs_columns (JobModel_convertToSnakeCase k)
           \<and> (\<exists>r\<in>set jobs. sql_eq (get r ''id'') ident) \<longrightarrow>
         isl (snd (JobModel_updateById reads jobs now ident payload))
         \<and> fst (JobModel_updateById reads jobs now ident payload) = jobs"
  proof (intro allI impI)
    fix k
    assume h: "(k, Null) \<in> set payload
           \<and> is_not_null jobs_columns (JobModel_convertToSnakeCase k)
           \<and> (\<exists>r\<in>set jobs. sql_eq (get r ''id'') ident)"
    then have i: "isl (snd ?J)"
      by (intro update_by_id_not_null [where k = k]) simp_all
    from i update_by_id_fail [OF i]
    show "isl (snd (JobModel_updateById reads jobs now ident payload))
         \<and> fst (JobModel_updateById reads jobs now ident payload) = jobs"
      unfolding JobModel_updateById_fst JobModel_updateById_snd by (simp add: isl_map_sum)
  qed
  have G: "\<forall>k. (k, Null) \<in> set payload \<and> k \<noteq> ''password''
           \<and> is_not_null users_columns (UserModel_convertToSnakeCase k)
           \<and> (\<exists>r\<in>set users. sql_eq (get r ''id'') ident) \<longrightarrow>
         isl (snd (UserModel_updateById hash reads users now ident payload))
         \<and> fst (UserModel_updateById hash reads users now ident payload) = users"
  proof (intro allI impI)
    fix k
    assume h: "(k, Null) \<in> set payload \<and> k \<noteq> ''password''
           \<and> is_not_null users_columns (UserModel_convertToSnakeCase k)
           \<and> (\<exists>r\<in>set users. sql_eq (get r ''id'') ident)"
    then have i: "isl (snd ?U)"
      by (intro update_by_id_not_null [where k = k]) simp_all
    from i update_by_id_fail [OF i]
    show "isl (snd (UserModel_updateById hash reads users now ident payload))
         \<and> fst (UserModel_updateById hash reads users now ident payload) = users"
      unfolding UserModel_updateById_fst UserModel_updateById_snd by (simp add: isl_map_sum)
  qed
  show ?thesis
    by (rule conjI [OF A conjI [OF D conjI [OF E conjI [OF F G]]]])
qed

theorem updateById_partial_update_witness:
  "JobModel_updateById example_reads example_jobs example_now (Str ''j1'') [(''title'', Undefined)]
     = (example_jobs, Inl (Error ''No fields to update''))
   \<and> UserModel_updateById example_hash example_reads example_users example_now (Str ''u1'') []
     = (example_users, Inl (Error ''No fields to update''))
   \<and> get (fst (JobModel_updateById example_reads example_jobs example_now (Str ''j1'')
               example_update) ! 0) ''offers'' = Null
   \<and> get (fst (JobModel_updateById example_reads example_jobs example_now (Str ''j1'')
               example_update) ! 0) ''job_niche'' = Str ''Law''
   \<and> get (fst (JobModel_updateById example_reads example_jobs example_now (Str ''j1'')
               example_update) ! 0) ''title'' = Str ''Clerk j1''
   \<and> fst (JobModel_updateById example_reads example_jobs example_now (Str ''j1'')
            example_update) ! 1 = example_jobs ! 1
   \<and> get (fst (UserModel_updateById example_hash example_reads example_users example_now
               (Str ''u1'') example_user_update) ! 0) ''password''
        = Str ''$2b$10$hash-of-new-secret''
   \<and> get (fst (UserModel_updateById example_hash example_reads example_users example_now
               (Str ''u1'') example_user_update) ! 0) ''cover_letter'' = Null
   \<and> isl (snd (JobModel_updateById example_reads example_jobs example_now (Str ''j1'')
               [(''salary'', Null)]))
   \<and> fst (JobModel_updateById example_reads example_jobs example_now (Str ''j1'')
            [(''salary'', Null)]) = example_jobs
   \<and> fst (UserModel_updateById example_hash example_reads example_users example_now (Str ''u1'')
            [(''name'', Null)]) = example_users"
proof -
  note t = updateById_partial_update [where reads = example_reads and jobs = example_jobs
      and now = example_now and hash = example_hash and users = example_users]
  note t1 = t [where payload = "[(''title'', Undefined)]" and ident = "Str ''j1''"]
  note t2 = t [where payload = "[]" and ident = "Str ''u1''"]
  note t4 = t [where payload = example_update and ident = "Str ''j1''"]
  note t5 = t [where payload = example_user_update and ident = "Str ''u1''"]
  note t6 = t [where payload = "[(''salary'', Null)]" and ident = "Str ''j1''"]
  note t7 = t [where payload = "[(''name'', Null)]" and ident = "Str ''u1''"]
  have c1: "JobModel_updateById example_reads example_jobs example_now (Str ''j1'')
      [(''title'', Undefined)] = (example_jobs, Inl (Error ''No fields to update''))"
    using t1 by simp
  have c2: "UserModel_updateById example_hash example_reads example_users example_now (Str ''u1'') []
     = (example_users, Inl (Error ''No fields to update''))"
    using t2 by simp
  let ?J = "JobModel_updateById example_reads example_jobs example_now (Str ''j1'') example_update"
  have "\<not> isl (snd ?J)"
    by code_simp
  then obtain res where r: "snd ?J = Inr res"
    by (cases "snd ?J") auto
  have z: "0 < length example_jobs" "1 < length example_jobs"
    "sql_eq (get (example_jobs ! 0) ''id'') (Str ''j1'')"
    "\<not> sql_eq (get (example_jobs ! 1) ''id'') (Str ''j1'')"
    "get (example_jobs ! 0) ''title'' = Str ''Clerk j1''"
    by code_simp+
  have m: "(''offers'', Null) \<in> set example_update" "(''jobNiche'', Str ''Law'') \<in> set example_update"
    "JobModel_convertToSnakeCase ''offers'' = ''offers''"
    "JobModel_convertToSnakeCase ''jobNiche'' = ''job_niche''"
    by (simp_all add: example_update_def JobModel_convertToSnakeCase_def)
  have sj: "stored jobs_columns example_reads ''job_niche'' (Str ''Law'') = Some (Str ''Law'')"
    by code_simp
  have f: "map (\<lambda>p. JobModel_convertToSnakeCase (fst p))
             (filter (\<lambda>p. snd p \<noteq> Undefined) example_update) = [''offers'', ''job_niche'']"
    by code_simp
  have "JobModel_convertToSnakeCase ` fst ` {p \<in> set example_update. snd p \<noteq> Undefined}
      = set (map (\<lambda>p. JobModel_convertToSnakeCase (fst p))
               (filter (\<lambda>p. snd p \<noteq> Undefined) example_update))"
    by (simp add: image_image)
  then have n: "''title'' \<notin> JobModel_convertToSnakeCase ` fst ` {p \<in> set example_update. snd p \<noteq> Undefined}"
    unfolding f by simp
  note j = t4 [THEN conjunct2, THEN conjunct1, rule_format, OF r, THEN conjunct2, rule_format]
  from j [OF z(1)] z(3) have j0:
    "\<And>k v. (k, v) \<in> set example_update \<and> v \<noteq> Undefined \<Longrightarrow>
        stored jobs_columns example_reads (JobModel_convertToSnakeCase k) v
          = Some (get (fst ?J ! 0) (JobModel_convertToSnakeCase k))
        \<and> (v = Null \<longrightarrow> get (fst ?J ! 0) (JobModel_convertToSnakeCase k) = Null)"
    "\<And>c. c \<notin> JobModel_convertToSnakeCase ` fst ` {p \<in> set example_update. snd p \<noteq> Undefined}
       \<and> c \<noteq> ''updated_at'' \<Longrightarrow> get (fst ?J ! 0) c = get (example_jobs ! 0) c"
    by (simp_all only: if_True) blast+
  from j0(1) [of "''offers''" Null] m have c4: "get (fst ?J ! 0) ''offers'' = Null"
    by simp
  from j0(1) [of "''jobNiche''" "Str ''Law''"] m sj have c5: "get (fst ?J ! 0) ''job_niche'' = Str ''Law''"
    by simp
  from j0(2) [of "''title''"] n z(5) have c6: "get (fst ?J ! 0) ''title'' = Str ''Clerk j1''"
    by simp
  from j [OF z(2)] z(4) have c7: "fst ?J ! 1 = example_jobs ! 1"
    by simp
  let ?U = "UserModel_updateById example_hash example_reads example_users example_now (Str ''u1'')
      example_user_update"
  have "\<not> isl (snd ?U)"
    by code_simp
  then obtain res' where r': "snd ?U = Inr res'"
    by (cases "snd ?U") auto
  have y: "0 < length example_users" "sql_eq (get (example_users ! 0) ''id'') (Str ''u1'')"
    "example_hash (Str ''new-secret'') = Inr (Str ''$2b$10$hash-of-new-secret'')"
    "UserModel_convertToSnakeCase ''coverLetter'' = ''cover_letter''"
    "UserModel_convertToSnakeCase ''password'' = ''password''"
    "stored users_columns example_reads ''password'' (Str ''$2b$10$hash-of-new-secret'')
       = Some (Str ''$2b$10$hash-of-new-secret'')"
    "stored users_columns example_reads ''cover_letter'' Null = Some Null"
    by code_simp+
  have y': "(''password'', Str ''new-secret'') \<in> set example_user_update"
    "(''coverLetter'', Null) \<in> set example_user_update"
    by (simp_all add: example_user_update_def)
  note u = t5 [THEN conjunct2, THEN conjunct2, THEN conjunct1, rule_format, OF r',
      THEN conjunct2, rule_format]
  from u [OF y(1)] y(2) have u0:
    "\<And>k v. (k, v) \<in> set example_user_update \<and> v \<noteq> Undefined \<Longrightarrow>
       (\<exists>w. (if k = ''password'' then example_hash v else Inr v) = Inr w
          \<and> stored users_columns example_reads (UserModel_convertToSnakeCase k) w
              = Some (get (fst ?U ! 0) (UserModel_convertToSnakeCase k)))"
    by (simp only: if_True) blast
  from u0 [of "''password''" "Str ''new-secret''"] y y' have c8:
    "get (fst ?U ! 0) ''password'' = Str ''$2b$10$hash-of-new-secret''"
    by auto
  from u0 [of "''coverLetter''" Null] y y' have c9: "get (fst ?U ! 0) ''cover_letter'' = Null"
    by auto
  have w: "(''salary'', Null) \<in> set [(''salary'', Null)]"
    "is_not_null jobs_columns (JobModel_convertToSnakeCase ''salary'')"
    "\<exists>r\<in>set example_jobs. sql_eq (get r ''id'') (Str ''j1'')"
    "(''name'', Null) \<in> set [(''name'', Null)]" "''name'' \<noteq> ''password''"
    "is_not_null users_columns (UserModel_convertToSnakeCase ''name'')"
    "\<exists>r\<in>set example_users. sql_eq (get r ''id'') (Str ''u1'')"
    by code_simp+
  from t6 [THEN conjunct2, THEN conjunct2, THEN conjunct2, THEN conjunct1, rule_format,
      of "''salary''"] w
  have c10: "isl (snd (JobModel_updateById example_reads example_jobs example_now (Str ''j1'')
               [(''salary'', Null)]))
    \<and> fst (JobModel_updateById example_reads example_jobs example_now (Str ''j1'')
            [(''salary'', Null)]) = example_jobs"
    by blast
  from t7 [THEN conjunct2, THEN conjunct2, THEN conjunct2, THEN conjunct2, rule_format,
      of "''name''"] w
  have c11: "fst (UserModel_updateById example_hash example_reads example_users example_now
      (Str ''u1'') [(''name'', Null)]) = example_users"
    by blast
  from c1 c2 c4 c5 c6 c7 c8 c9 c10 c11 show ?thesis by blast
qed

lemma stored_job_type:
  "stored jobs_columns reads ''job_type'' v =
     (if v = Null \<or> v = Undefined then Some Null
      else if v = Str ''Full-time'' \<or> v = Str ''Part-time'' then Some v
      else None)"
  by (cases v) (auto simp: stored_def bind_value_def jobs_columns_def)

lemma stored_newsletters_sent:
  "stored jobs_columns reads ''newsletters_sent'' (Bool b) = Some (Bool b)"
  by (simp add: stored_def bind_value_def jobs_columns_def)

lemma stored_other:
  "v \<noteq> Null \<Longrightarrow> v \<noteq> Undefined \<Longrightarrow> stored jobs_columns reads ''title'' v = reads ''title'' v"
  by (simp add: stored_def bind_value_def jobs_columns_def)

lemma updateById_rejections:
  "JobModel_updateById example_reads example_jobs example_now (Str ''j1'') [(''jobType'', Str ''Gig'')]
     = (example_jobs, Inl (Error ''value rejected by the store''))"
  "JobModel_updateById example_reads example_jobs example_now (Str ''j1'') [(''nonsense'', Num 1)]
     = (example_jobs, Inl (Error ''column does not exist''))"
  "JobModel_updateById example_reads example_jobs example_now (Str ''j1'')
       [(''jobNiche'', Str ''Law''), (''job_niche'', Str ''IT'')]
     = (example_jobs, Inl (Error ''multiple assignments to same column''))"
  "JobModel_updateById example_reads example_jobs example_now (Str ''j9'') [(''title'', Null)]
     = (example_jobs, Inr None)"
  "UserModel_updateById example_hash example_reads example_users example_now (Str ''u1'')
       [(''name'', Null)]
     = (example_users, Inl (Error ''null value violates not-null constraint''))"
  by code_simp+

lemma get_append: "get (xs @ ys) k = (case map_of xs k of Some v \<Rightarrow> v | None \<Rightarrow> get ys k)"
  by (simp add: get_def map_add_def split: option.splits)

lemma get_poster_row:
  "c \<noteq> ''poster_name'' \<Longrightarrow> c \<noteq> ''poster_email'' \<Longrightarrow> get (poster_row j u) c = get j c"
  by (simp add: poster_row_def get_append) (simp add: get_def split: option.splits)

lemma map_of_formatJob:
  "map_of (formatJob r) ''id'' = Some (get r ''id'')"
  "map_of (formatJob r) ''jobNiche'' = Some (get r ''job_niche'')"
  "map_of (formatJob r) ''newsLettersSent'' = Some (get r ''newsletters_sent'')"
  "map_of (formatJob r) ''createdAt'' = Some (get r ''created_at'')"
  by (simp_all add: formatJob_def)

lemma get_formatJobWithPoster:
  "get (formatJobWithPoster r) ''id'' = get r ''id''"
  "get (formatJobWithPoster r) ''jobNiche'' = get r ''job_niche''"
  "get (formatJobWithPoster r) ''newsLettersSent'' = get r ''newsletters_sent''"
  "get (formatJobWithPoster r) ''createdAt'' = get r ''created_at''"
  by (simp_all only: formatJobWithPoster_def get_append map_of_formatJob option.case)

lemma get_fetched:
  "get (formatJobWithPoster (poster_row j u)) ''id'' = get j ''id''"
  "get (formatJobWithPoster (poster_row j u)) ''jobNiche'' = get j ''job_niche''"
  "get (formatJobWithPoster (poster_row j u)) ''newsLettersSent'' = get j ''newsletters_sent''"
  "get (formatJobWithPoster (poster_row j u)) ''createdAt'' = get j ''created_at''"
  by (simp_all add: get_formatJobWithPoster get_poster_row)

lemma newsletter_candidate_iff:
  "newsletter_candidate now j \<longleftrightarrow>
     get j ''newsletters_sent'' = Bool False \<and> (\<exists>t. get j ''created_at'' = Num t \<and> now - day \<le> t)"
  by (auto simp: newsletter_candidate_def sql_eq_flag split: val.splits)

lemma set_getJobsForNewsletter:
  "set (getJobsForNewsletter users jobs now) =
     {formatJobWithPoster (poster_row j u) | j u.
        j \<in> set jobs \<and> newsletter_candidate now j \<and> u \<in> set users
        \<and> sql_eq (get j ''posted_by'') (get u ''id'')}"
  by (auto simp: getJobsForNewsletter_def)

text \<open>
  Claim C2. Every posting the candidate query returns has the sent flag false and was
  created no more than 24 hours before the query; every stored posting with these two
  properties is returned, joined to its poster; and a posting that is older than 24 hours
  at one time is returned by no query at that time or later, whatever the tables hold.
\<close>

theorem getJobsForNewsletter_window:
  "(\<forall>x\<in>set (getJobsForNewsletter users jobs now).
      get x ''newsLettersSent'' = Bool False
      \<and> (\<exists>t. get x ''createdAt'' = Num t \<and> now - day \<le> t)
      \<and> (\<exists>j\<in>set jobs. \<exists>u\<in>set users. x = formatJobWithPoster (poster_row j u)))
   \<and> (\<forall>j\<in>set jobs. \<forall>u\<in>set users.
        sql_eq (get j ''posted_by'') (get u ''id'')
        \<and> get j ''newsletters_sent'' = Bool False
        \<and> (\<exists>t. get j ''created_at'' = Num t \<and> now - day \<le> t)
        \<longrightarrow> formatJobWithPoster (poster_row j u) \<in> set (getJobsForNewsletter users jobs now))
   \<and> (\<forall>t now' users' jobs' u.
        get j ''created_at'' = Num t \<and> t < now - day \<and> now \<le> now'
        \<longrightarrow> formatJobWithPoster (poster_row j u) \<notin> set (getJobsForNewsletter users' jobs' now'))"
proof -
  have A: "\<forall>x\<in>set (getJobsForNewsletter users jobs now).
      get x ''newsLettersSent'' = Bool False
      \<and> (\<exists>t. get x ''createdAt'' = Num t \<and> now - day \<le> t)
      \<and> (\<exists>j\<in>set jobs. \<exists>u\<in>set users. x = formatJobWithPoster (poster_row j u))" for users jobs now
    unfolding set_getJobsForNewsletter newsletter_candidate_iff
    by (auto simp: get_fetched)
  have B: "\<forall>j\<in>set jobs. \<forall>u\<in>set users.
        sql_eq (get j ''posted_by'') (get u ''id'')
        \<and> get j ''newsletters_sent'' = Bool False
        \<and> (\<exists>t. get j ''created_at'' = Num t \<and> now - day \<le> t)
        \<longrightarrow> formatJobWithPoster (poster_row j u) \<in> set (getJobsForNewsletter users jobs now)"
    unfolding set_getJobsForNewsletter newsletter_candidate_iff by blast
  have C: "\<forall>t now' users' jobs' u.
        get j ''created_at'' = Num t \<and> t < now - day \<and> now \<le> now'
        \<longrightarrow> formatJobWithPoster (poster_row j u) \<notin> set (getJobsForNewsletter users' jobs' now')"
  proof (intro allI impI notI)
    fix t now' users' jobs' u
    assume h: "get j ''created_at'' = Num t \<and> t < now - day \<and> now \<le> now'"
      and m: "formatJobWithPoster (poster_row j u) \<in> set (getJobsForNewsletter users' jobs' now')"
    from A [of users' jobs' now'] m obtain t' where
      "get (formatJobWithPoster (poster_row j u)) ''createdAt'' = Num t'" "now' - day \<le> t'"
      by blast
    with h show False by (simp add: get_fetched)
  qed
  show ?thesis by (rule conjI [OF A conjI [OF B C]])
qed

theorem getJobsForNewsletter_window_witness:
  "map (\<lambda>x. get x ''id'') (getJobsForNewsletter example_users example_jobs example_now)
     = [Str ''j3'', Str ''j1'']
   \<and> formatJobWithPoster (poster_row (example_jobs ! 0) (example_users ! 2))
       \<in> set (getJobsForNewsletter example_users example_jobs example_now)
   \<and> formatJobWithPoster (poster_row (example_jobs ! 1) (example_users ! 2))
       \<notin> set (getJobsForNewsletter example_users example_jobs (example_now + 60000000))"
proof -
  note t = getJobsForNewsletter_window [of example_users example_jobs example_now "example_jobs ! 1"]
  have e: "map (\<lambda>x. get x ''id'') (getJobsForNewsletter example_users example_jobs example_now)
     = [Str ''j3'', Str ''j1'']"
    by code_simp
  have h: "example_jobs ! 0 \<in> set example_jobs" "example_users ! 2 \<in> set example_users"
    "sql_eq (get (example_jobs ! 0) ''posted_by'') (get (example_users ! 2) ''id'')"
    "get (example_jobs ! 0) ''newsletters_sent'' = Bool False"
    "get (example_jobs ! 0) ''created_at'' = Num 90000000000"
    "example_now - day \<le> 90000000000"
    "get (example_jobs ! 1) ''created_at'' = Num 1000"
    "1000 < example_now - day" "example_now \<le> example_now + 60000000"
    by code_simp+
  from t h have "formatJobWithPoster (poster_row (example_jobs ! 0) (example_users ! 2))
       \<in> set (getJobsForNewsletter example_users example_jobs example_now)"
    by blast
  moreover from t h have "formatJobWithPoster (poster_row (example_jobs ! 1) (example_users ! 2))
       \<notin> set (getJobsForNewsletter example_users example_jobs (example_now + 60000000))"
    by blast
  ultimately show ?thesis using e by blast
qed

lemma mark_sent_table:
  "fst (JobModel_updateById reads T now ident [(''newsLettersSent'', Bool True)])
     = map (\<lambda>r. if sql_eq (get r ''id'') ident
                  then assign [(''newsletters_sent'', Bool True), (''updated_at'', Num now)] r
                  else r) T"
  by (simp add: JobModel_updateById_def update_by_id_def sql_update_def stored_def
        bind_value_def is_not_null_def JobModel_convertToSnakeCase_def jobs_columns_def)

lemma send_to_users_length:
  "length (send_to_users delivers job us out) = length out + length us"
  by (induction us arbitrary: out) auto

lemma send_to_users_mails:
  "map fst (send_to_users delivers job us out) = map fst out @ map (newsletter_mail job) us"
  by (induction us arbitrary: out) auto

lemma send_to_users_outcomes:
  "map snd out = map delivers [0..<length out] \<Longrightarrow>
     map snd (send_to_users delivers job us out)
       = map delivers [0..<length (send_to_users delivers job us out)]"
  by (induction us arbitrary: out) auto

lemma process_job_table:
  "jobs_table (process_job reads users now delivers st job)
     = (if findByJobNiche users (get job ''jobNiche'') = [] then jobs_table st
        else map (\<lambda>r. if sql_eq (get r ''id'') (get job ''id'')
                        then assign [(''newsletters_sent'', Bool True), (''updated_at'', Num now)] r
                        else r) (jobs_table st))"
  by (simp add: process_job_def Let_def mark_sent_table)

lemma process_job_outbox:
  "outbox (process_job reads users now delivers st job)
     = (if findByJobNiche users (get job ''jobNiche'') = [] then outbox st
        else send_to_users delivers job (findByJobNiche users (get job ''jobNiche'')) (outbox st))"
  by (simp add: process_job_def Let_def)

lemma process_job_length:
  "length (jobs_table (process_job reads users now delivers st job)) = length (jobs_table st)"
  by (simp add: process_job_table)

lemma process_job_id:
  "i < length (jobs_table st) \<Longrightarrow>
     get (jobs_table (process_job reads users now delivers st job) ! i) ''id''
       = get (jobs_table st ! i) ''id''"
  by (simp add: process_job_table get_assign2)

lemma process_job_stable:
  "i < length (jobs_table st) \<Longrightarrow> get (jobs_table st ! i) ''newsletters_sent'' = Bool True \<Longrightarrow>
     get (jobs_table (process_job reads users now delivers st job) ! i) ''newsletters_sent'' = Bool True"
  by (simp add: process_job_table get_assign2)

lemma process_job_marks:
  "i < length (jobs_table st) \<Longrightarrow> findByJobNiche users (get job ''jobNiche'') \<noteq> [] \<Longrightarrow>
     sql_eq (get (jobs_table st ! i) ''id'') (get job ''id'') \<Longrightarrow>
     get (jobs_table (process_job reads users now delivers st job) ! i) ''newsletters_sent'' = Bool True"
  by (simp add: process_job_table get_assign2)

lemma run_length:
  "length (jobs_table (foldl (process_job reads users now delivers) st fetched)) = length (jobs_table st)"
  by (induction fetched arbitrary: st) (simp_all add: process_job_length)

lemma run_id:
  "i < length (jobs_table st) \<Longrightarrow>
     get (jobs_table (foldl (process_job reads users now delivers) st fetched) ! i) ''id''
       = get (jobs_table st ! i) ''id''"
  by (induction fetched arbitrary: st) (simp_all add: process_job_length process_job_id)

lemma run_stable:
  "i < length (jobs_table st) \<Longrightarrow> get (jobs_table st ! i) ''newsletters_sent'' = Bool True \<Longrightarrow>
     get (jobs_table (foldl (process_job reads users now delivers) st fetched) ! i) ''newsletters_sent''
       = Bool True"
  by (induction fetched arbitrary: st) (simp_all add: process_job_length process_job_stable)

lemma run_marks:
  "job \<in> set fetched \<Longrightarrow> i < length (jobs_table st) \<Longrightarrow>
     findByJobNiche users (get job ''jobNiche'') \<noteq> [] \<Longrightarrow>
     sql_eq (get (jobs_table st ! i) ''id'') (get job ''id'') \<Longrightarrow>
     get (jobs_table (foldl (process_job reads users now delivers) st fetched) ! i) ''newsletters_sent''
       = Bool True"
proof (induction fetched arbitrary: st)
  case Nil
  then show ?case by simp
next
  case (Cons x xs)
  let ?st = "process_job reads users now delivers st x"
  have l: "i < length (jobs_table ?st)"
    using Cons.prems(2) by (simp add: process_job_length)
  show ?case
  proof (cases "job = x")
    case True
    with Cons.prems have "get (jobs_table ?st ! i) ''newsletters_sent'' = Bool True"
      by (simp add: process_job_marks)
    from run_stable [OF l this] show ?thesis by simp
  next
    case False
    with Cons.prems(1) have m: "job \<in> set xs" by simp
    have "sql_eq (get (jobs_table ?st ! i) ''id'') (get job ''id'')"
      using Cons.prems(2,4) by (simp add: process_job_id)
    from Cons.IH [OF m l Cons.prems(3) this] show ?thesis by simp
  qed
qed

lemma run_mails:
  "map fst (outbox (foldl (process_job reads users now delivers) st fetched))
     = map fst (outbox st)
       @ concat (map (\<lambda>job. map (newsletter_mail job) (findByJobNiche users (get job ''jobNiche'')))
                   fetched)"
  by (induction fetched arbitrary: st) (simp_all add: process_job_outbox send_to_users_mails)

lemma run_outcomes:
  "map snd (outbox st) = map delivers [0..<length (outbox st)] \<Longrightarrow>
     map snd (outbox (foldl (process_job reads users now delivers) st fetched))
       = map delivers [0..<length (outbox (foldl (process_job reads users now delivers) st fetched))]"
proof (induction fetched arbitrary: st)
  case Nil
  then show ?case by simp
next
  case (Cons x xs)
  have "map snd (outbox (process_job reads users now delivers st x))
      = map delivers [0..<length (outbox (process_job reads users now delivers st x))]"
    using Cons.prems send_to_users_outcomes [OF Cons.prems]
    by (simp add: process_job_outbox)
  from Cons.IH [OF this] show ?case by simp
qed

lemma newsLetterCron_fold:
  "newsLetterCron reads users jobs now delivers
     = foldl (process_job reads users now delivers) \<lparr>jobs_table = jobs, outbox = []\<rparr>
         (getJobsForNewsletter users jobs now)"
  by (simp add: newsLetterCron_def Let_def)

text \<open>
  Claim C1, as the code has it. In one run, every stored posting that the candidate query
  fetches and that has at least one matching subscriber ends with its sent flag true, and
  a mail to each matching subscriber was attempted, whatever the transport did with any
  attempt. The attempts of the run are exactly the mails of every fetched posting to each
  of its matching subscribers, in order, and the outcome recorded for each attempt is the
  transport's: a failed attempt stops nothing. The iteration for a fetched posting that
  no subscriber matches changes nothing.
\<close>

theorem newsLetterCron_marks_sent:
  "(\<forall>i<length jobs. \<forall>p\<in>set users.
      get (jobs ! i) ''id'' \<noteq> Null \<and> get (jobs ! i) ''id'' \<noteq> Undefined
      \<and> get (jobs ! i) ''newsletters_sent'' = Bool False
      \<and> (\<exists>t. get (jobs ! i) ''created_at'' = Num t \<and> now - day \<le> t)
      \<and> sql_eq (get (jobs ! i) ''posted_by'') (get p ''id'')
      \<and> findByJobNiche users (get (jobs ! i) ''job_niche'') \<noteq> []
      \<longrightarrow> get (jobs_table (newsLetterCron reads users jobs now delivers) ! i) ''newsletters_sent''
            = Bool True
          \<and> (\<forall>user\<in>set (findByJobNiche users (get (jobs ! i) ''job_niche'')).
                newsletter_mail (formatJobWithPoster (poster_row (jobs ! i) p)) user
                  \<in> fst ` set (outbox (newsLetterCron reads users jobs now delivers))))
   \<and> map fst (outbox (newsLetterCron reads users jobs now delivers))
       = concat (map (\<lambda>job. map (newsletter_mail job)
                               (findByJobNiche users (get job ''jobNiche'')))
                   (getJobsForNewsletter users jobs now))
   \<and> map snd (outbox (newsLetterCron reads users jobs now delivers))
       = map delivers [0..<length (outbox (newsLetterCron reads users jobs now delivers))]
   \<and> (\<forall>st job. findByJobNiche users (get job ''jobNiche'') = [] \<longrightarrow>
         process_job reads users now delivers st job = st)"
proof -
  let ?run = "newsLetterCron reads users jobs now delivers"
  let ?fetched = "getJobsForNewsletter users jobs now"
  have M: "map fst (outbox ?run)
       = concat (map (\<lambda>job. map (newsletter_mail job)
                               (findByJobNiche users (get job ''jobNiche''))) ?fetched)"
    by (simp add: newsLetterCron_fold run_mails)
  have O: "map snd (outbox ?run) = map delivers [0..<length (outbox ?run)]"
    unfolding newsLetterCron_fold by (rule run_outcomes) simp
  have P: "\<forall>i<length jobs. \<forall>p\<in>set users.
      get (jobs ! i) ''id'' \<noteq> Null \<and> get (jobs ! i) ''id'' \<noteq> Undefined
      \<and> get (jobs ! i) ''newsletters_sent'' = Bool False
      \<and> (\<exists>t. get (jobs ! i) ''created_at'' = Num t \<and> now - day \<le> t)
      \<and> sql_eq (get (jobs ! i) ''posted_by'') (get p ''id'')
      \<and> findByJobNiche users (get (jobs ! i) ''job_niche'') \<noteq> []
      \<longrightarrow> get (jobs_table ?run ! i) ''newsletters_sent'' = Bool True
          \<and> (\<forall>user\<in>set (findByJobNiche users (get (jobs ! i) ''job_niche'')).
                newsletter_mail (formatJobWithPoster (poster_row (jobs ! i) p)) user
                  \<in> fst ` set (outbox ?run))"
  proof (intro allI ballI impI)
    fix i p
    assume i: "i < length jobs" and p: "p \<in> set users"
      and h: "get (jobs ! i) ''id'' \<noteq> Null \<and> get (jobs ! i) ''id'' \<noteq> Undefined
      \<and> get (jobs ! i) ''newsletters_sent'' = Bool False
      \<and> (\<exists>t. get (jobs ! i) ''created_at'' = Num t \<and> now - day \<le> t)
      \<and> sql_eq (get (jobs ! i) ''posted_by'') (get p ''id'')
      \<and> findByJobNiche users (get (jobs ! i) ''job_niche'') \<noteq> []"
    let ?job = "formatJobWithPoster (poster_row (jobs ! i) p)"
    from i have "jobs ! i \<in> set jobs" by simp
    with p h have f: "?job \<in> set ?fetched"
      unfolding set_getJobsForNewsletter newsletter_candidate_iff by blast
    from h have n: "findByJobNiche users (get ?job ''jobNiche'') \<noteq> []"
      by (simp add: get_fetched)
    from h have e: "sql_eq (get (jobs ! i) ''id'') (get ?job ''id'')"
      by (simp add: get_fetched sql_eq_def)
    have 1: "get (jobs_table ?run ! i) ''newsletters_sent'' = Bool True"
      unfolding newsLetterCron_fold
      by (rule run_marks [OF f _ n]) (use i e in simp_all)
    have 2: "newsletter_mail ?job user \<in> fst ` set (outbox ?run)"
      if "user \<in> set (findByJobNiche users (get (jobs ! i) ''job_niche''))" for user
    proof -
      from that have "user \<in> set (findByJobNiche users (get ?job ''jobNiche''))"
        by (simp add: get_fetched)
      with f have "newsletter_mail ?job user \<in> set (map fst (outbox ?run))"
        unfolding M by auto
      then show ?thesis by simp
    qed
    from 1 2 show "get (jobs_table ?run ! i) ''newsletters_sent'' = Bool True
          \<and> (\<forall>user\<in>set (findByJobNiche users (get (jobs ! i) ''job_niche'')).
                newsletter_mail ?job user \<in> fst ` set (outbox ?run))"
      by blast
  qed
  have S: "\<forall>st job. findByJobNiche users (get job ''jobNiche'') = [] \<longrightarrow>
         process_job reads users now delivers st job = st"
    by (simp add: process_job_def)
  show ?thesis by (rule conjI [OF P conjI [OF M conjI [OF O S]]])
qed

theorem newsLetterCron_marks_sent_witness:
  "get (jobs_table (newsLetterCron example_reads example_users example_jobs example_now none_delivered) ! 0)
       ''newsletters_sent'' = Bool True
   \<and> newsletter_mail (formatJobWithPoster (poster_row (example_jobs ! 0) (example_users ! 2)))
         (formatUserResponse (example_users ! 0))
       \<in> fst ` set (outbox (newsLetterCron example_reads example_users example_jobs example_now none_delivered))
   \<and> length (outbox (newsLetterCron example_reads example_users example_jobs example_now none_delivered)) = 2
   \<and> map snd (outbox (newsLetterCron example_reads example_users example_jobs example_now none_delivered))
       = [False, False]"
proof -
  let ?run = "newsLetterCron example_reads example_users example_jobs example_now none_delivered"
  note t = newsLetterCron_marks_sent [where jobs = example_jobs and users = example_users
      and now = example_now and reads = example_reads and delivers = none_delivered]
  have h: "0 < length example_jobs" "example_users ! 2 \<in> set example_users"
    "get (example_jobs ! 0) ''id'' \<noteq> Null" "get (example_jobs ! 0) ''id'' \<noteq> Undefined"
    "get (example_jobs ! 0) ''newsletters_sent'' = Bool False"
    "get (example_jobs ! 0) ''created_at'' = Num 90000000000"
    "example_now - day \<le> 90000000000"
    "sql_eq (get (example_jobs ! 0) ''posted_by'') (get (example_users ! 2) ''id'')"
    "findByJobNiche example_users (get (example_jobs ! 0) ''job_niche'') \<noteq> []"
    "formatUserResponse (example_users ! 0)
       \<in> set (findByJobNiche example_users (get (example_jobs ! 0) ''job_niche''))"
    by code_simp+
  from t h have a: "get (jobs_table ?run ! 0) ''newsletters_sent'' = Bool True
      \<and> (\<forall>user\<in>set (findByJobNiche example_users (get (example_jobs ! 0) ''job_niche'')).
            newsletter_mail (formatJobWithPoster (poster_row (example_jobs ! 0) (example_users ! 2))) user
              \<in> fst ` set (outbox ?run))"
    by blast
  with h(10) have b: "newsletter_mail (formatJobWithPoster (poster_row (example_jobs ! 0) (example_users ! 2)))
         (formatUserResponse (example_users ! 0)) \<in> fst ` set (outbox ?run)"
    by blast
  have "length (concat (map (\<lambda>job. map (newsletter_mail job)
                               (findByJobNiche example_users (get job ''jobNiche'')))
                   (getJobsForNewsletter example_users example_jobs example_now))) = 2"
    by code_simp
  with t have "length (map fst (outbox ?run)) = 2" by simp
  then have l: "length (outbox ?run) = 2" by simp
  have "map none_delivered [0..<2] = [False, False]" by code_simp
  with t l have o: "map snd (outbox ?run) = [False, False]" by simp
  from a b l o show ?thesis by blast
qed

text \<open>
  Claim C1 as stated also covers a fetched posting that no subscriber matches. The loop
  leaves such a posting through its \<^verbatim>\<open>continue\<close> before the update: posting \<open>j3\<close> of the
  example is fetched, matches nobody, and is still unsent after a run in which every send
  succeeds.
\<close>

theorem newsLetterCron_unmatched_counterexample:
  "formatJobWithPoster (poster_row (example_jobs ! 2) (example_users ! 2))
       \<in> set (getJobsForNewsletter example_users example_jobs example_now)
   \<and> findByJobNiche example_users (get (example_jobs ! 2) ''job_niche'') = []
   \<and> get (jobs_table (newsLetterCron example_reads example_users example_jobs example_now all_delivered) ! 2)
       ''newsletters_sent'' = Bool False"
  by code_simp

end
